theory Spec2Isabelle
  imports Complex_Main "HOL-Library.Log_Nat"
begin

section \<open>The tensor framework, as far as DensNet.cpp calls it\<close>

text \<open>
  DensNet.cpp arranges layers of an external tensor framework. The numbers inside a tensor
  are floating point and stay symbolic here: a tensor is its list of extents together
  with a term that records which framework operations produced it. Extents and channel
  counts are \<open>int64_t\<close> in the source; the framework never holds a negative extent, and
  no count of a tensor it can hold comes near \<open>2^63\<close>, so they are natural numbers here.
  The constructors of the framework's layers are total here: what they check of their
  options is not modelled, only what \<open>forward\<close> checks of its input.

  Every framework call that can throw returns a sum: \<open>Inl\<close> the exception, \<open>Inr\<close> the
  tensor. DensNet.cpp catches nothing, so an \<open>Inl\<close> ends the process.
\<close>

datatype error =
    ExpectedRank4
  | ChannelMismatch
  | NeedMoreThanOneValuePerChannel
  | KernelLargerThanInput
  | OutputSizeTooSmall
  | ZeroSizedInput
  | EmptySequential
  | AmbiguousInferredDimension
  | InvalidViewShape
  | FeatureMismatch
  | CatSizeMismatch
  | DimensionOutOfRange
  | NullModule
  | TargetMismatch
  | NotOneElement
  | IndexOutOfRange
  | OutOfBoundsAccess

record conv2d_options =
  in_channels :: nat
  out_channels :: nat
  kernel_size :: nat
  stride :: nat
  padding :: nat

text \<open>\<open>torch::nn::Conv2dOptions(in, out, k)\<close>: stride 1 and padding 0 unless set.\<close>

definition Options :: "nat \<Rightarrow> nat \<Rightarrow> nat \<Rightarrow> conv2d_options" where
  "Options i o' k =
     \<lparr>in_channels = i, out_channels = o', kernel_size = k, stride = 1, padding = 0\<rparr>"

datatype op =
    BatchNorm2d_op nat bool
  | ReLU_op
  | Conv2d_op conv2d_options
  | MaxPool2d_op nat nat nat nat bool
  | AvgPool2d_op nat nat
  | AdaptiveAvgPool2d_op nat nat
  | View_op
  | Linear_op nat nat
  | Cat_op nat
  | LogSoftmax_op nat
  | NLLLoss_op
  | Exp_op
  | Argmax_op nat

datatype tval = Data nat | Ints "int list" | Apply op "tval list"

text \<open>
  \<open>Data\<close> is a tensor that came from outside (an image), \<open>Ints\<close> a tensor of labels, and
  \<open>Apply\<close> the result of a framework operation on earlier tensors.
\<close>

record tensor =
  sizes :: "nat list"
  data :: tval

type_synonym 'a result = "error + 'a"

definition bind_result :: "'a result \<Rightarrow> ('a \<Rightarrow> 'b result) \<Rightarrow> 'b result" where
  "bind_result r f = (case r of Inl e \<Rightarrow> Inl e | Inr x \<Rightarrow> f x)"

subsection \<open>Shape contracts of the framework's operations\<close>

text \<open>
  Batch normalisation over \<open>num_features\<close> channels keeps the shape. It wants a rank 4
  input whose channel extent is \<open>num_features\<close>, and in training mode more than one value
  per channel ("Expected more than 1 value per channel when training").
\<close>

definition BatchNorm2d_forward :: "bool \<Rightarrow> nat \<Rightarrow> tensor \<Rightarrow> tensor result" where
  "BatchNorm2d_forward training num_features x =
     (case sizes x of
        [N, C, H, W] \<Rightarrow>
          if C \<noteq> num_features then Inl ChannelMismatch
          else if training \<and> N * H * W = 1 then Inl NeedMoreThanOneValuePerChannel
          else Inr \<lparr>sizes = [N, C, H, W],
                    data = Apply (BatchNorm2d_op num_features training) [data x]\<rparr>
      | _ \<Rightarrow> Inl ExpectedRank4)"

definition relu :: "tensor \<Rightarrow> tensor" where
  "relu x = \<lparr>sizes = sizes x, data = Apply ReLU_op [data x]\<rparr>"

text \<open>
  One spatial extent of a convolution with dilation 1:
  \<open>floor ((n + 2 * padding - kernel) / stride) + 1\<close>; the framework throws when the kernel
  is larger than the padded input ("Kernel size can't be greater than actual input size").
\<close>

definition conv_output_size :: "nat \<Rightarrow> nat \<Rightarrow> nat \<Rightarrow> nat \<Rightarrow> nat result" where
  "conv_output_size n k s p =
     (if n + 2 * p < k then Inl KernelLargerThanInput
      else Inr ((n + 2 * p - k) div s + 1))"

definition Conv2d_forward :: "conv2d_options \<Rightarrow> tensor \<Rightarrow> tensor result" where
  "Conv2d_forward opts x =
     (case sizes x of
        [N, C, H, W] \<Rightarrow>
          if C \<noteq> in_channels opts then Inl ChannelMismatch
          else bind_result (conv_output_size H (kernel_size opts) (stride opts) (padding opts))
            (\<lambda>H'. bind_result
               (conv_output_size W (kernel_size opts) (stride opts) (padding opts))
            (\<lambda>W'. Inr \<lparr>sizes = [N, out_channels opts, H', W'],
                        data = Apply (Conv2d_op opts) [data x]\<rparr>))
      | _ \<Rightarrow> Inl ExpectedRank4)"

text \<open>
  One spatial extent of a pooling window (kernel \<open>k\<close>, stride \<open>s\<close>, padding \<open>p\<close>, dilation
  \<open>d\<close>): \<open>floor ((n + 2p - d (k - 1) - 1) / s) + 1\<close>, with \<open>ceil_mode\<close> rounding up and
  then dropping a last window that would start in the right padding. A result below 1
  is refused ("Output size is too small"), and so is an input with an empty channel or
  spatial extent.
\<close>

definition pooling_output_shape :: "nat \<Rightarrow> nat \<Rightarrow> nat \<Rightarrow> nat \<Rightarrow> nat \<Rightarrow> bool \<Rightarrow> nat result" where
  "pooling_output_shape n k s p d ceil_mode =
     (if n + 2 * p < d * (k - 1) + 1 then Inl OutputSizeTooSmall
      else
        let m = n + 2 * p - (d * (k - 1) + 1);
            out = (m + (if ceil_mode then s - 1 else 0)) div s + 1
        in Inr (if ceil_mode \<and> n + p \<le> (out - 1) * s then out - 1 else out))"

definition pool2d :: "op \<Rightarrow> nat \<Rightarrow> nat \<Rightarrow> nat \<Rightarrow> nat \<Rightarrow> bool \<Rightarrow> tensor \<Rightarrow> tensor result" where
  "pool2d f k s p d ceil_mode x =
     (case sizes x of
        [N, C, H, W] \<Rightarrow>
          if C = 0 \<or> H = 0 \<or> W = 0 then Inl ZeroSizedInput
          else bind_result (pooling_output_shape H k s p d ceil_mode)
            (\<lambda>H'. bind_result (pooling_output_shape W k s p d ceil_mode)
            (\<lambda>W'. Inr \<lparr>sizes = [N, C, H', W'], data = Apply f [data x]\<rparr>))
      | _ \<Rightarrow> Inl ExpectedRank4)"

text \<open>\<open>torch::max_pool2d(x, kernel, stride, padding, dilation, ceil_mode)\<close>.\<close>

definition max_pool2d :: "nat \<Rightarrow> nat \<Rightarrow> nat \<Rightarrow> nat \<Rightarrow> bool \<Rightarrow> tensor \<Rightarrow> tensor result" where
  "max_pool2d k s p d ceil_mode = pool2d (MaxPool2d_op k s p d ceil_mode) k s p d ceil_mode"

text \<open>\<open>AvgPool2d(AvgPool2dOptions(k).stride(s))\<close>: no padding, floor mode.\<close>

definition AvgPool2d_forward :: "nat \<Rightarrow> nat \<Rightarrow> tensor \<Rightarrow> tensor result" where
  "AvgPool2d_forward k s = pool2d (AvgPool2d_op k s) k s 0 1 False"

text \<open>\<open>torch::adaptive_avg_pool2d(x, {h, w})\<close> on a batched input.\<close>

definition adaptive_avg_pool2d :: "tensor \<Rightarrow> nat \<Rightarrow> nat \<Rightarrow> tensor result" where
  "adaptive_avg_pool2d x h w =
     (case sizes x of
        [N, C, H, W] \<Rightarrow>
          if C = 0 \<or> H = 0 \<or> W = 0 then Inl ZeroSizedInput
          else Inr \<lparr>sizes = [N, C, h, w], data = Apply (AdaptiveAvgPool2d_op h w) [data x]\<rparr>
      | _ \<Rightarrow> Inl ExpectedRank4)"

text \<open>
  \<open>x.view({n, -1})\<close>: the second extent is inferred from the number of elements. With
  \<open>n = 0\<close> any value would do and the framework refuses to choose ("cannot reshape
  tensor of 0 elements into shape [0, -1] because the unspecified dimension size -1 can
  be any value and is ambiguous").
\<close>

definition view_rows :: "tensor \<Rightarrow> nat \<Rightarrow> tensor result" where
  "view_rows x n =
     (let numel = prod_list (sizes x) in
      if n = 0 then
        (if numel = 0 then Inl AmbiguousInferredDimension else Inl InvalidViewShape)
      else if numel mod n \<noteq> 0 then Inl InvalidViewShape
      else Inr \<lparr>sizes = [n, numel div n], data = Apply View_op [data x]\<rparr>)"

text \<open>A linear layer maps the last extent from \<open>in_features\<close> to \<open>out_features\<close>.\<close>

definition Linear_forward :: "nat \<Rightarrow> nat \<Rightarrow> tensor \<Rightarrow> tensor result" where
  "Linear_forward in_features out_features x =
     (if sizes x = [] \<or> last (sizes x) \<noteq> in_features then Inl FeatureMismatch
      else Inr \<lparr>sizes = butlast (sizes x) @ [out_features],
                data = Apply (Linear_op in_features out_features) [data x]\<rparr>)"

text \<open>
  \<open>torch::cat(ts, axis)\<close>: the tensors agree on every extent but \<open>axis\<close>, where the
  extents add up.
\<close>

definition cat :: "tensor list \<Rightarrow> nat \<Rightarrow> tensor result" where
  "cat ts axis =
     (case ts of
        [] \<Rightarrow> Inl CatSizeMismatch
      | t # rest \<Rightarrow>
          if axis < length (sizes t) \<and>
             list_all (\<lambda>u. length (sizes u) = length (sizes t) \<and>
                           (sizes u)[axis := 0] = (sizes t)[axis := 0]) rest
          then Inr \<lparr>sizes = (sizes t)[axis := sum_list (map (\<lambda>u. sizes u ! axis) ts)],
                    data = Apply (Cat_op axis) (map data ts)\<rparr>
          else Inl CatSizeMismatch)"

text \<open>\<open>log_softmax(x, axis)\<close> and \<open>x.exp()\<close> keep the shape.\<close>

definition log_softmax :: "tensor \<Rightarrow> nat \<Rightarrow> tensor result" where
  "log_softmax x axis =
     (if axis < length (sizes x)
      then Inr \<lparr>sizes = sizes x, data = Apply (LogSoftmax_op axis) [data x]\<rparr>
      else Inl DimensionOutOfRange)"

definition exp_t :: "tensor \<Rightarrow> tensor" where
  "exp_t x = \<lparr>sizes = sizes x, data = Apply Exp_op [data x]\<rparr>"

text \<open>\<open>x.argmax(1)\<close> on a matrix: one index per row; a row must not be empty.\<close>

definition argmax1 :: "tensor \<Rightarrow> tensor result" where
  "argmax1 x =
     (case sizes x of
        [N, C] \<Rightarrow> if C = 0 then Inl ZeroSizedInput
                  else Inr \<lparr>sizes = [N], data = Apply (Argmax_op 1) [data x]\<rparr>
      | _ \<Rightarrow> Inl DimensionOutOfRange)"

text \<open>
  The criterion of \<open>main\<close>: \<open>NLLLoss\<close> with \<open>ignore_index\<close> -100 and mean reduction. It wants
  one target per row, each a class index or the ignored value, and gives a scalar.
\<close>

definition criterion :: "tensor \<Rightarrow> int list \<Rightarrow> tensor result" where
  "criterion out target =
     (case sizes out of
        [N, C] \<Rightarrow>
          if length target = N \<and> list_all (\<lambda>t. t = -100 \<or> (0 \<le> t \<and> t < int C)) target
          then Inr \<lparr>sizes = [], data = Apply NLLLoss_op [data out, Ints target]\<rparr>
          else Inl TargetMismatch
      | _ \<Rightarrow> Inl TargetMismatch)"

section \<open>Modules\<close>

text \<open>
  How a parameter tensor was last filled; the constructors of the framework's layers
  apply the framework's default.
\<close>

datatype init = FrameworkDefault | KaimingNormal | Constant int

text \<open>
  The four structs of DensNet.cpp derive from \<open>SequentialImpl\<close> and differ in their
  \<open>forward\<close> only; \<open>seq_class\<close> is the dynamic type of such a node. A parameter of a
  layer is kept as the way it was last filled.
\<close>

datatype seq_class = Sequential | ConvBlock | DenseBlockClass | TransitionBlock

datatype module =
    BatchNorm2d nat init init
  | ReLU
  | Conv2d conv2d_options init init
  | AvgPool2d nat nat
  | Functional_max_pool2d nat nat nat nat bool
  | Linear nat nat init init
  | SequentialImpl seq_class "module list"

text \<open>
  \<open>forward\<close> in a given mode. \<open>SequentialImpl::forward\<close> feeds the input to the first
  child and each output to the next child; it refuses a container without children
  ("Cannot call forward() on an empty Sequential"). \<open>conv_block::forward\<close> calls it and
  concatenates its input with the result on axis 1; the other three structs only call it.
\<close>

fun forward :: "bool \<Rightarrow> module \<Rightarrow> tensor \<Rightarrow> tensor result"
  and SequentialImpl_forward :: "bool \<Rightarrow> module list \<Rightarrow> tensor \<Rightarrow> tensor result" where
  "forward training (BatchNorm2d n w b) x = BatchNorm2d_forward training n x"
| "forward training ReLU x = Inr (relu x)"
| "forward training (Conv2d opts w b) x = Conv2d_forward opts x"
| "forward training (AvgPool2d k s) x = AvgPool2d_forward k s x"
| "forward training (Functional_max_pool2d k s p d c) x = max_pool2d k s p d c x"
| "forward training (Linear i o' w b) x = Linear_forward i o' x"
| "forward training (SequentialImpl ConvBlock ms) x =
     bind_result (SequentialImpl_forward training ms x) (\<lambda>Y. cat [x, Y] 1)"
| "forward training (SequentialImpl c ms) x = SequentialImpl_forward training ms x"
| "SequentialImpl_forward training [] x = Inl EmptySequential"
| "SequentialImpl_forward training [m] x = forward training m x"
| "SequentialImpl_forward training (m # m' # ms) x =
     bind_result (forward training m x) (SequentialImpl_forward training (m' # ms))"

section \<open>The blocks of DensNet.cpp\<close>

text \<open>\<open>push_back\<close> appends a child to a \<open>SequentialImpl\<close>; other modules have no children.\<close>

fun push_back :: "module \<Rightarrow> module \<Rightarrow> module" where
  "push_back (SequentialImpl c ms) m = SequentialImpl c (ms @ [m])"
| "push_back self m = self"

text \<open>
  \<open>struct conv_block\<close>: batch normalisation, ReLU and a 3x3 convolution with padding 1;
  its \<open>forward\<close> (the \<open>ConvBlock\<close> equation of \<open>forward\<close>) concatenates the input and the
  output of the three on axis 1.
\<close>

definition conv_block :: "nat \<Rightarrow> nat \<Rightarrow> module" where
  "conv_block input_channels num_channels =
     push_back (push_back (push_back (SequentialImpl ConvBlock [])
       (BatchNorm2d input_channels FrameworkDefault FrameworkDefault))
       ReLU)
       (Conv2d ((Options input_channels num_channels 3)\<lparr>padding := 1\<rparr>)
          FrameworkDefault FrameworkDefault)"

text \<open>
  \<open>struct DenseBlock\<close>: for \<open>i\<close> from 0 below \<open>num_convs\<close>, push
  \<open>conv_block(num_channels * i + input_channels, num_channels)\<close>.
\<close>

definition DenseBlock :: "nat \<Rightarrow> nat \<Rightarrow> nat \<Rightarrow> module" where
  "DenseBlock num_convs input_channels num_channels =
     foldl (\<lambda>self i. push_back self (conv_block (num_channels * i + input_channels) num_channels))
       (SequentialImpl DenseBlockClass []) [0..<num_convs]"

text \<open>
  \<open>struct transition_block\<close>: batch normalisation, ReLU, a 1x1 convolution and average
  pooling with kernel 2 and stride 2.
\<close>

definition transition_block :: "nat \<Rightarrow> nat \<Rightarrow> module" where
  "transition_block input_channels num_channels =
     push_back (push_back (push_back (push_back (SequentialImpl TransitionBlock [])
       (BatchNorm2d input_channels FrameworkDefault FrameworkDefault))
       ReLU)
       (Conv2d (Options input_channels num_channels 1) FrameworkDefault FrameworkDefault))
       (AvgPool2d 2 2)"

section \<open>DensNetImpl\<close>

text \<open>
  \<open>static_cast<int64_t>(n / 2.0)\<close>: the count becomes a double, the double is halved,
  and the cast drops the fraction. A double holds 53 significant bits, so the conversion
  is exact below \<open>2^53 = 9007199254740992\<close> and rounds to the nearest representable
  value, ties to the even one, from there on; halving a double is exact.
\<close>

definition to_double :: "nat \<Rightarrow> rat" where
  "to_double n =
     (if n < 9007199254740992 then of_nat n
      else
        let u = 2 ^ (floorlog 2 n - 53); q = n div u; r = n mod u
        in of_nat ((if 2 * r < u \<or> (2 * r = u \<and> even q) then q else q + 1) * u))"

definition halve_channels :: "nat \<Rightarrow> nat" where
  "halve_channels n = nat \<lfloor>to_double n / 2\<rfloor>"

text \<open>The members of \<open>DensNetImpl\<close>; \<open>classifier\<close> starts as \<open>nullptr\<close> (\<open>None\<close>).\<close>

record DensNetImpl =
  classifier :: "module option"
  num_channels :: nat
  growth_rate :: nat
  num_convs_in_dense_blocks :: "nat list"
  features :: module

definition default_members :: DensNetImpl where
  "default_members =
     \<lparr>classifier = None, num_channels = 64, growth_rate = 32,
      num_convs_in_dense_blocks = [4, 4, 4, 4], features = SequentialImpl Sequential []\<rparr>"

text \<open>The stem: the first four \<open>push_back\<close> calls of the constructor.\<close>

definition push_stem :: "DensNetImpl \<Rightarrow> DensNetImpl" where
  "push_stem self =
     self\<lparr>features :=
       push_back (push_back (push_back (push_back (features self)
         (Conv2d ((Options 3 64 7)\<lparr>stride := 2, padding := 3\<rparr>) FrameworkDefault FrameworkDefault))
         (BatchNorm2d 64 FrameworkDefault FrameworkDefault))
         ReLU)
         (Functional_max_pool2d 3 2 1 1 False)\<rparr>"

text \<open>
  The body of the constructor's loop at index \<open>i\<close>: a dense block, the channel counter
  grown by \<open>num_convs * growth_rate\<close>, and, unless \<open>i\<close> is the last index, a transition
  block to half the channels, which the counter follows.
\<close>

definition dense_stage :: "DensNetImpl \<Rightarrow> nat \<Rightarrow> DensNetImpl" where
  "dense_stage self i =
     (let num_convs = num_convs_in_dense_blocks self ! i;
          self1 = self\<lparr>features :=
            push_back (features self) (DenseBlock num_convs (num_channels self) (growth_rate self))\<rparr>;
          self2 = self1\<lparr>num_channels := num_channels self1 + num_convs * growth_rate self1\<rparr>
      in if i \<noteq> length (num_convs_in_dense_blocks self2) - 1
         then
           let self3 = self2\<lparr>features :=
                 push_back (features self2)
                   (transition_block (num_channels self2) (halve_channels (num_channels self2)))\<rparr>
           in self3\<lparr>num_channels := halve_channels (num_channels self3)\<rparr>
         else self2)"

text \<open>
  The initialisation loop at the end of the constructor. \<open>init_one\<close> is its body, the
  chain of \<open>dynamic_cast\<close>s on one module; the loop runs over \<open>modules(false)\<close>, every
  descendant of the model, so \<open>init_modules\<close> applies the body to a node and to all below
  it.
\<close>

fun init_one :: "module \<Rightarrow> module" where
  "init_one (Conv2d opts w b) = Conv2d opts KaimingNormal b"
| "init_one (BatchNorm2d n w b) = BatchNorm2d n (Constant 1) (Constant 0)"
| "init_one (Linear i o' w b) = Linear i o' w (Constant 0)"
| "init_one m = m"

fun init_modules :: "module \<Rightarrow> module" where
  "init_modules (SequentialImpl c ms) = SequentialImpl c (map init_modules ms)"
| "init_modules m = init_one m"

definition official_init :: "DensNetImpl \<Rightarrow> DensNetImpl" where
  "official_init self =
     self\<lparr>features := init_modules (features self),
          classifier := map_option init_modules (classifier self)\<rparr>"

text \<open>The constructor, from given member initialisers.\<close>

definition DensNetImpl_from :: "DensNetImpl \<Rightarrow> nat \<Rightarrow> DensNetImpl" where
  "DensNetImpl_from members num_classes =
     (let self1 = push_stem members;
          self2 = foldl dense_stage self1 [0..<length (num_convs_in_dense_blocks self1)];
          self3 = self2\<lparr>features :=
            push_back (features self2)
              (BatchNorm2d (num_channels self2) FrameworkDefault FrameworkDefault)\<rparr>;
          self4 = self3\<lparr>classifier :=
            Some (Linear (num_channels self3) num_classes FrameworkDefault FrameworkDefault)\<rparr>
      in official_init self4)"

text \<open>\<open>DensNet(num_classes)\<close>: the constructor with the member initialisers of the source.\<close>

definition DensNet :: "nat \<Rightarrow> DensNetImpl" where
  "DensNet num_classes = DensNetImpl_from default_members num_classes"

text \<open>
  \<open>DensNetImpl::forward\<close>. \<open>relu_\<close> works in place, which leaves the extents alone;
  \<open>features.size(0)\<close> throws on a tensor of rank 0.
\<close>

definition DensNet_forward :: "bool \<Rightarrow> DensNetImpl \<Rightarrow> tensor \<Rightarrow> tensor result" where
  "DensNet_forward training self x =
     bind_result (forward training (features self) x)
       (\<lambda>features_out. bind_result (adaptive_avg_pool2d (relu features_out) 1 1)
       (\<lambda>out. bind_result
          (case sizes features_out of
             [] \<Rightarrow> Inl DimensionOutOfRange
           | n # _ \<Rightarrow> view_rows out n)
       (\<lambda>out. case classifier self of
                 None \<Rightarrow> Inl NullModule
               | Some c \<Rightarrow> forward training c out)))"

text \<open>\<open>modules()\<close>: a module and its descendants, parents first.\<close>

fun modules :: "module \<Rightarrow> module list" where
  "modules (SequentialImpl c ms) = SequentialImpl c ms # concat (map modules ms)"
| "modules m = [m]"

text \<open>\<open>modules(/*include_self=*/false)\<close> of the model: below \<open>features\<close> and \<open>classifier\<close>.\<close>

definition DensNet_modules :: "DensNetImpl \<Rightarrow> module list" where
  "DensNet_modules self =
     modules (features self) @ (case classifier self of None \<Rightarrow> [] | Some c \<Rightarrow> modules c)"

section \<open>Set_Class_Names\<close>

text \<open>
  How a call ends: it returns; or the program writes a line to \<open>cerr\<close> and calls
  \<open>std::exit\<close> with a code; or an exception that nothing catches ends the process in
  \<open>std::terminate\<close>, with no line and no exit code of the program's own.
\<close>

datatype 'a ending = Returns 'a | Exits nat string | Uncaught string

text \<open>
  The lines \<open>getline\<close> delivers from a stream of characters until it fails: each call
  takes the characters up to the next newline and drops the newline; at the end of the
  stream it extracts nothing and fails. So a last line needs no newline, and an empty
  line between two newlines is delivered as such.
\<close>

function getlines :: "string \<Rightarrow> string list" where
  "getlines cs =
     (if cs = [] then []
      else takeWhile (\<lambda>c. c \<noteq> CHR 0x0A) cs #
           getlines (drop 1 (dropWhile (\<lambda>c. c \<noteq> CHR 0x0A) cs)))"
  by pat_completeness auto
termination
proof (relation "measure length")
  show "wf (measure length)" by simp
next
  fix cs :: string
  assume ne: "cs \<noteq> []"
  have le: "length (dropWhile (\<lambda>c. c \<noteq> CHR 0x0A) cs) \<le> length cs"
    by (rule length_dropWhile_le)
  have pos: "0 < length cs" using ne by simp
  have "length (dropWhile (\<lambda>c. c \<noteq> CHR 0x0A) cs) - 1 < length cs"
    using le pos by linarith
  then show "(drop 1 (dropWhile (\<lambda>c. c \<noteq> CHR 0x0A) cs), cs) \<in> measure length"
    by simp
qed

declare getlines.simps [simp del]

text \<open>
  The body of the \<open>while\<close> loop over the delivered lines: a line longer than 2 goes to
  \<open>class_names.at(i)\<close>, which throws \<open>std::out_of_range\<close> when \<open>i\<close> is not below the size of
  the vector, and \<open>i\<close> is counted up.
\<close>

fun store_names :: "string list \<Rightarrow> string list \<Rightarrow> nat \<Rightarrow> (string list \<times> nat) ending" where
  "store_names [] class_names i = Returns (class_names, i)"
| "store_names (class_name # rest) class_names i =
     (if length class_name > 2 then
        (if i < length class_names
         then store_names rest (class_names[i := class_name]) (i + 1)
         else Uncaught ''std::out_of_range'')
      else store_names rest class_names i)"

text \<open>
  \<open>Set_Class_Names(path, class_num)\<close>. The file system gives the characters of a file
  that can be opened, \<open>None\<close> otherwise.
\<close>

definition Set_Class_Names :: "(string \<Rightarrow> string option) \<Rightarrow> string \<Rightarrow> nat \<Rightarrow> string list ending" where
  "Set_Class_Names fs path class_num =
     (let class_names = replicate class_num [] in
      case fs path of
        None \<Rightarrow> Exits 1 ''Error : can't open the class name file.''
      | Some content \<Rightarrow>
          (case store_names (getlines content) class_names 0 of
             Returns (class_names', i) \<Rightarrow>
               if i \<noteq> class_num
               then Exits 1 ''Error : The number of classes does not match the number of lines in the class name file.''
               else Returns class_names'
           | Exits code msg \<Rightarrow> Exits code msg
           | Uncaught e \<Rightarrow> Uncaught e))"

section \<open>Floats\<close>

text \<open>
  A \<open>float\<close> is a finite value or one of the three special values. The rounding of an
  exact result to the nearest \<open>float\<close> is a parameter \<open>rnd\<close> of every operation (it may
  overflow to an infinity); signed zeros are not told apart.
\<close>

datatype flt = Fin rat | PosInf | NegInf | NaN

fun fadd :: "(rat \<Rightarrow> flt) \<Rightarrow> flt \<Rightarrow> flt \<Rightarrow> flt" where
  "fadd rnd (Fin a) (Fin b) = rnd (a + b)"
| "fadd rnd NaN y = NaN"
| "fadd rnd x NaN = NaN"
| "fadd rnd PosInf NegInf = NaN"
| "fadd rnd NegInf PosInf = NaN"
| "fadd rnd PosInf y = PosInf"
| "fadd rnd x PosInf = PosInf"
| "fadd rnd NegInf y = NegInf"
| "fadd rnd x NegInf = NegInf"

fun fdiv :: "(rat \<Rightarrow> flt) \<Rightarrow> flt \<Rightarrow> flt \<Rightarrow> flt" where
  "fdiv rnd (Fin a) (Fin b) =
     (if b = 0 then (if a = 0 then NaN else if 0 < a then PosInf else NegInf)
      else rnd (a / b))"
| "fdiv rnd NaN y = NaN"
| "fdiv rnd x NaN = NaN"
| "fdiv rnd (Fin a) y = Fin 0"
| "fdiv rnd PosInf (Fin b) = (if 0 \<le> b then PosInf else NegInf)"
| "fdiv rnd NegInf (Fin b) = (if 0 \<le> b then NegInf else PosInf)"
| "fdiv rnd x y = NaN"

text \<open>\<open>(float)n\<close> for a \<open>size_t\<close>: exact up to \<open>2^24\<close>, rounded above.\<close>

definition float_of_size :: "(rat \<Rightarrow> flt) \<Rightarrow> nat \<Rightarrow> flt" where
  "float_of_size rnd n = (if n \<le> 2 ^ 24 then Fin (of_nat n) else rnd (of_nat n))"

section \<open>The loops of main\<close>

text \<open>
  What the run takes from outside. The loaders and datasets are classes of the repository
  whose code is not in DensNet.cpp: a loader hands out the mini-batches of an epoch one
  by one and then answers \<open>false\<close>, so an epoch is the list of its mini-batches (image
  tensor and labels; the file paths are not used). The numbers the framework computes
  are read by \<open>item\<close>: they depend on the tensor and on how many optimizer steps the weights
  have had.
\<close>

type_synonym mini_batch = "tensor \<times> int list"

record world =
  train_batches :: "nat \<Rightarrow> mini_batch list"
  valid_batches :: "nat \<Rightarrow> mini_batch list"
  test_batches :: "mini_batch list"
  count_max :: nat
  dataset_size :: nat
  test_dataset_size :: nat
  rnd :: "rat \<Rightarrow> flt"
  item_float :: "nat \<Rightarrow> tval \<Rightarrow> flt"
  item_int64 :: "nat \<Rightarrow> tval \<Rightarrow> nat \<Rightarrow> int"

text \<open>
  The state of the model under training: the mode flag that \<open>train()\<close> and \<open>eval()\<close> set,
  the number of optimizer steps so far, and the calls made on the model, the criterion
  and the optimizer, in order.
\<close>

datatype call =
    Net_train
  | Net_eval
  | Net_forward bool
  | Log_softmax
  | Criterion
  | Zero_grad
  | Backward
  | Optimizer_step
  | Exp_argmax

record run_state =
  is_training :: bool
  updates :: nat
  calls :: "call list"

text \<open>A loop over the mini-batches of a loader; an exception ends it.\<close>

fun fold_result :: "('s \<Rightarrow> 'a \<Rightarrow> 's result) \<Rightarrow> 's \<Rightarrow> 'a list \<Rightarrow> 's result" where
  "fold_result f s [] = Inr s"
| "fold_result f s (x # xs) = bind_result (f s x) (\<lambda>s'. fold_result f s' xs)"











text \<open>A module starts in training mode, with no optimizer step behind it.\<close>

definition fresh_state :: run_state where
  "fresh_state = \<lparr>is_training = True, updates = 0, calls = []\<rparr>"

subsection \<open>The test phase\<close>

text \<open>
  One pass of the test \<open>while\<close> loop. \<open>item\<close> on the argmax wants a tensor of one element,
  \<open>label[0]\<close> a label; \<open>class_counter[answer]\<close> and \<open>class_match[answer]\<close> are unchecked
  accesses to vectors of \<open>class_num\<close> entries, undefined outside them, where the model
  stops.
\<close>

definition test_iteration ::
  "world \<Rightarrow> DensNetImpl \<Rightarrow> run_state \<times> flt \<times> nat \<times> nat \<times> nat list \<times> nat list \<Rightarrow> mini_batch \<Rightarrow>
     (run_state \<times> flt \<times> nat \<times> nat \<times> nat list \<times> nat list) result" where
  "test_iteration w net s mini_batch =
     (case s of (st, loss_acc, match, counter, class_match, class_counter) \<Rightarrow>
      case mini_batch of (img, lbl) \<Rightarrow>
        bind_result (DensNet_forward (is_training st) net img)
          (\<lambda>output. bind_result (log_softmax output 1)
          (\<lambda>out. bind_result (criterion out lbl)
          (\<lambda>loss. bind_result (argmax1 (exp_t output))
          (\<lambda>responses.
             if sizes responses \<noteq> [1] then Inl NotOneElement
             else if lbl = [] then Inl IndexOutOfRange
             else
               let response = item_int64 w (updates st) (data responses) 0;
                   answer = hd lbl
               in if answer < 0 \<or> int (length class_counter) \<le> answer
                     \<or> int (length class_match) \<le> answer
                  then Inl OutOfBoundsAccess
                  else Inr
                    (st\<lparr>calls := calls st @
                         [Net_forward (is_training st), Log_softmax, Criterion, Exp_argmax]\<rparr>,
                     fadd (rnd w) loss_acc (item_float w (updates st) (data loss)),
                     (if response = answer then match + 1 else match),
                     counter + 1,
                     (if response = answer
                      then class_match[nat answer := class_match ! nat answer + 1]
                      else class_match),
                     class_counter[nat answer := class_counter ! nat answer + 1]))))))"

text \<open>What the program writes to \<open>cout\<close>, piece by piece.\<close>

datatype printed = Str string | Size nat | Float flt | Endl

record test_report =
  test_ave_loss :: flt
  class_accuracy :: "flt list"
  accuracy :: flt
  final_class_match :: "nat list"
  final_class_counter :: "nat list"
  final_match :: nat
  final_counter :: nat
  console :: "printed list"

text \<open>
  The block under \<open>if (test)\<close>. \<open>dataset\<close> is the training dataset of the top of \<open>main\<close>;
  \<open>test_dataset\<close> is the one made here. \<open>class_names[i]\<close> is unchecked as well.
\<close>

definition test_phase ::
  "world \<Rightarrow> DensNetImpl \<Rightarrow> string list \<Rightarrow> nat \<Rightarrow> run_state \<Rightarrow> (run_state \<times> test_report) result" where
  "test_phase w net class_names class_num st =
     bind_result
       (fold_result (test_iteration w net)
          (st\<lparr>is_training := False, calls := calls st @ [Net_eval]\<rparr>,
           Fin 0, 0, 0, replicate class_num 0, replicate class_num 0)
          (test_batches w))
       (\<lambda>(st', loss_acc, match, counter, class_match, class_counter).
          if length class_names < class_num then Inl OutOfBoundsAccess
          else
            let average = fdiv (rnd w) loss_acc (float_of_size (rnd w) (dataset_size w));
                class_acc = map (\<lambda>i. fdiv (rnd w) (float_of_size (rnd w) (class_match ! i))
                                         (float_of_size (rnd w) (class_counter ! i)))
                              [0..<class_num];
                acc = fdiv (rnd w) (float_of_size (rnd w) match) (float_of_size (rnd w) counter)
            in Inr (st',
                 \<lparr>test_ave_loss = average, class_accuracy = class_acc, accuracy = acc,
                  final_class_match = class_match, final_class_counter = class_counter,
                  final_match = match, final_counter = counter,
                  console =
                    [Str ''total test images : '', Size (test_dataset_size w), Endl, Endl,
                     Str ''Test accuracy ==========\<newline>''] @
                    concat (map (\<lambda>i. [Str (class_names ! i), Str '': '',
                                        Float (class_acc ! i), Str ''\<newline>''])
                              [0..<class_num]) @
                    [Str ''\<newline>Test accuracy: '', Float acc, Endl]\<rparr>))"

section \<open>What the specification asks of the parts\<close>

text \<open>
  The initialisation policy in the specification's words: a convolution has its weight
  from Kaiming-normal and its bias untouched, a batch normalisation has weight 1 and
  bias 0, a linear layer has its weight untouched and bias 0, and nothing else holds
  parameters.
\<close>

fun initialised_by_policy :: "module \<Rightarrow> bool" where
  "initialised_by_policy (Conv2d opts w b) = (w = KaimingNormal \<and> b = FrameworkDefault)"
| "initialised_by_policy (BatchNorm2d n w b) = (w = Constant 1 \<and> b = Constant 0)"
| "initialised_by_policy (Linear i o' w b) = (w = FrameworkDefault \<and> b = Constant 0)"
| "initialised_by_policy m = True"

text \<open>
  The loss of a mini-batch as the loops compute it, in a given mode and after \<open>v\<close>
  optimizer steps: forward, log-softmax on axis 1, the criterion, and the number read
  from the result.
\<close>

definition loss_value :: "world \<Rightarrow> nat \<Rightarrow> bool \<Rightarrow> DensNetImpl \<Rightarrow> mini_batch \<Rightarrow> flt result" where
  "loss_value w v training net b =
     bind_result (DensNet_forward training net (fst b))
       (\<lambda>output. bind_result (log_softmax output 1)
       (\<lambda>out. bind_result (criterion out (snd b))
       (\<lambda>loss. Inr (item_float w v (data loss)))))"

text \<open>
  The top-1 prediction for sample \<open>i\<close> of an image tensor: the index of the largest
  exponentiated output in row \<open>i\<close>.
\<close>

definition top1 :: "world \<Rightarrow> nat \<Rightarrow> bool \<Rightarrow> DensNetImpl \<Rightarrow> tensor \<Rightarrow> nat \<Rightarrow> int result" where
  "top1 w v training net img i =
     bind_result (DensNet_forward training net img)
       (\<lambda>output. bind_result (argmax1 (exp_t output))
       (\<lambda>responses. Inr (item_int64 w v (data responses) i)))"

text \<open>
  A mini-batch as the loaders of \<open>main\<close> deliver it: at least one image of 3x224x224, one
  label per image, each label a class index or the ignored value. The test loader
  delivers one image at a time, labelled with a class index.
\<close>

definition well_formed_batch :: "nat \<Rightarrow> mini_batch \<Rightarrow> bool" where
  "well_formed_batch num_classes b =
     (case sizes (fst b) of
        [N, C, H, W] \<Rightarrow>
          C = 3 \<and> H = 224 \<and> W = 224 \<and> 0 < N \<and> length (snd b) = N \<and>
          list_all (\<lambda>t. t = -100 \<or> (0 \<le> t \<and> t < int num_classes)) (snd b)
      | _ \<Rightarrow> False)"

definition well_formed_test_batch :: "nat \<Rightarrow> mini_batch \<Rightarrow> bool" where
  "well_formed_test_batch num_classes b =
     (sizes (fst b) = [1, 3, 224, 224] \<and>
      (case snd b of [l] \<Rightarrow> 0 \<le> l \<and> l < int num_classes | _ \<Rightarrow> False))"

text \<open>
  A small world to run the loops in: two training images per epoch, one validation image,
  one test image of class 0, a training set of two images, every loss 1 and every
  prediction class 0, and exact arithmetic for the rounding.
\<close>

definition example_world :: world where
  "example_world =
     \<lparr>train_batches = (\<lambda>e. [(\<lparr>sizes = [2, 3, 224, 224], data = Data e\<rparr>, [0, 1])]),
      valid_batches = (\<lambda>e. [(\<lparr>sizes = [1, 3, 224, 224], data = Data (100 + e)\<rparr>, [1])]),
      test_batches = [(\<lparr>sizes = [1, 3, 224, 224], data = Data 200\<rparr>, [0])],
      count_max = 1, dataset_size = 2, test_dataset_size = 1,
      rnd = Fin, item_float = (\<lambda>v t. Fin 1), item_int64 = (\<lambda>v t i. 0)\<rparr>"

text \<open>What the test phase of that world ends with, for the class names rose and tulip.\<close>

definition example_final_state :: run_state where
  "example_final_state =
     \<lparr>is_training = False, updates = 0,
      calls = [Net_eval, Net_forward False, Log_softmax, Criterion, Exp_argmax]\<rparr>"

definition example_report :: test_report where
  "example_report =
     \<lparr>test_ave_loss = Fin (1 / 2), class_accuracy = [Fin 1, NaN], accuracy = Fin 1,
      final_class_match = [1, 0], final_class_counter = [1, 0],
      final_match = 1, final_counter = 1,
      console =
        [Str ''total test images : '', Size 1, Endl, Endl,
         Str ''Test accuracy ==========\<newline>'',
         Str ''rose'', Str '': '', Float (Fin 1), Str ''\<newline>'',
         Str ''tulip'', Str '': '', Float NaN, Str ''\<newline>'',
         Str ''\<newline>Test accuracy: '', Float (Fin 1), Endl]\<rparr>"

section \<open>Properties of the blocks\<close>

lemma bind_result_simps [simp]:
  "bind_result (Inl e) f = Inl e"
  "bind_result (Inr x) f = f x"
  by (simp_all add: bind_result_def)

lemma conv_block_children:
  "conv_block ci co = SequentialImpl ConvBlock
     [BatchNorm2d ci FrameworkDefault FrameworkDefault, ReLU,
      Conv2d ((Options ci co 3)\<lparr>padding := 1\<rparr>) FrameworkDefault FrameworkDefault]"
  by (simp add: conv_block_def)

lemma transition_block_children:
  "transition_block ci co = SequentialImpl TransitionBlock
     [BatchNorm2d ci FrameworkDefault FrameworkDefault, ReLU,
      Conv2d (Options ci co 1) FrameworkDefault FrameworkDefault, AvgPool2d 2 2]"
  by (simp add: transition_block_def)

lemma BatchNorm2d_forward_ok:
  assumes "sizes x = [N, C, H, W]" "\<not> (training \<and> N * H * W = 1)"
  shows "BatchNorm2d_forward training C x =
     Inr \<lparr>sizes = [N, C, H, W], data = Apply (BatchNorm2d_op C training) [data x]\<rparr>"
  using assms unfolding BatchNorm2d_forward_def by auto

lemma Conv2d_forward_3x3_pad1:
  assumes "sizes x = [N, Cin, H, W]" "0 < H" "0 < W"
  shows "Conv2d_forward ((Options Cin Cout 3)\<lparr>padding := 1\<rparr>) x =
     Inr \<lparr>sizes = [N, Cout, H, W],
          data = Apply (Conv2d_op ((Options Cin Cout 3)\<lparr>padding := 1\<rparr>)) [data x]\<rparr>"
  using assms unfolding Conv2d_forward_def conv_output_size_def Options_def by auto

lemma Conv2d_forward_1x1:
  assumes "sizes x = [N, Cin, H, W]" "0 < H" "0 < W"
  shows "Conv2d_forward (Options Cin Cout 1) x =
     Inr \<lparr>sizes = [N, Cout, H, W], data = Apply (Conv2d_op (Options Cin Cout 1)) [data x]\<rparr>"
  using assms unfolding Conv2d_forward_def conv_output_size_def Options_def by auto

lemma cat_channels:
  "cat [\<lparr>sizes = [N, C, H, W], data = d\<rparr>, \<lparr>sizes = [N, C', H, W], data = d'\<rparr>] 1 =
     Inr \<lparr>sizes = [N, C + C', H, W], data = Apply (Cat_op 1) [d, d']\<rparr>"
  by (simp add: cat_def)

lemma avg_pool_halves:
  "2 \<le> n \<Longrightarrow> pooling_output_shape n 2 2 0 1 False = Inr (n div 2)"
proof -
  assume "2 \<le> n"
  then have "(n - 2) div 2 + 1 = n div 2" by presburger
  with \<open>2 \<le> n\<close> show ?thesis by (simp add: pooling_output_shape_def)
qed

lemma AvgPool2d_forward_halves:
  assumes "sizes x = [N, C, H, W]" "0 < C" "2 \<le> H" "2 \<le> W"
  shows "AvgPool2d_forward 2 2 x =
     Inr \<lparr>sizes = [N, C, H div 2, W div 2], data = Apply (AvgPool2d_op 2 2) [data x]\<rparr>"
  using assms unfolding AvgPool2d_forward_def pool2d_def
  by (simp add: avg_pool_halves del: One_nat_def)

lemma conv_block_forward:
  assumes "sizes x = [N, Cin, H, W]" "0 < H" "0 < W" "\<not> (training \<and> N * H * W = 1)"
  shows "forward training (conv_block Cin Cout) x =
     Inr \<lparr>sizes = [N, Cin + Cout, H, W],
          data = Apply (Cat_op 1) [data x,
            Apply (Conv2d_op ((Options Cin Cout 3)\<lparr>padding := 1\<rparr>))
              [Apply ReLU_op [Apply (BatchNorm2d_op Cin training) [data x]]]]\<rparr>"
proof -
  have x: "x = \<lparr>sizes = [N, Cin, H, W], data = data x\<rparr>" using assms(1) by simp
  have "forward training (conv_block Cin Cout) x =
      cat [x, \<lparr>sizes = [N, Cout, H, W], 
            data = Apply (Conv2d_op ((Options Cin Cout 3)\<lparr>padding := 1\<rparr>))
              [Apply ReLU_op [Apply (BatchNorm2d_op Cin training) [data x]]]\<rparr>] 1"
    using assms
    by (simp add: conv_block_children BatchNorm2d_forward_ok relu_def Conv2d_forward_3x3_pad1
      del: One_nat_def)
  also have "\<dots> = cat [\<lparr>sizes = [N, Cin, H, W], data = data x\<rparr>, \<lparr>sizes = [N, Cout, H, W], 
            data = Apply (Conv2d_op ((Options Cin Cout 3)\<lparr>padding := 1\<rparr>))
              [Apply ReLU_op [Apply (BatchNorm2d_op Cin training) [data x]]]\<rparr>] 1"
    using x by simp
  finally show ?thesis by (simp only: cat_channels)
qed

lemma transition_block_forward:
  assumes "sizes x = [N, Cin, H, W]" "2 \<le> H" "2 \<le> W" "0 < Cout"
  shows "forward training (transition_block Cin Cout) x =
     Inr \<lparr>sizes = [N, Cout, H div 2, W div 2],
          data = Apply (AvgPool2d_op 2 2)
            [Apply (Conv2d_op (Options Cin Cout 1))
              [Apply ReLU_op [Apply (BatchNorm2d_op Cin training) [data x]]]]\<rparr>"
proof -
  have g: "\<not> (training \<and> N * H * W = 1)" using assms by auto
  have k: "0 < H" "0 < W" using assms by simp_all
  have "forward training (transition_block Cin Cout) x =
     AvgPool2d_forward 2 2 \<lparr>sizes = [N, Cout, H, W],
        data = Apply (Conv2d_op (Options Cin Cout 1))
              [Apply ReLU_op [Apply (BatchNorm2d_op Cin training) [data x]]]\<rparr>"
    using assms(1) g k
    by (simp add: transition_block_children BatchNorm2d_forward_ok relu_def Conv2d_forward_1x1
      del: One_nat_def)
  then show ?thesis using assms by (simp add: AvgPool2d_forward_halves)
qed

lemma push_back_foldl:
  "foldl (\<lambda>self i. push_back self (f i)) (SequentialImpl c ms) xs =
     SequentialImpl c (ms @ map f xs)"
  by (induction xs arbitrary: ms) simp_all

lemma DenseBlock_children:
  "DenseBlock n Cin g =
     SequentialImpl DenseBlockClass (map (\<lambda>i. conv_block (g * i + Cin) g) [0..<n])"
  by (simp add: DenseBlock_def push_back_foldl)

lemma foldl_bind_Inl: "foldl (\<lambda>r m. bind_result r (f m)) (Inl e) ms = Inl e"
  by (induction ms) simp_all

lemma SequentialImpl_forward_foldl:
  "ms \<noteq> [] \<Longrightarrow>
   SequentialImpl_forward training ms x =
     foldl (\<lambda>r m. bind_result r (forward training m)) (Inr x) ms"
proof (induction ms arbitrary: x)
  case Nil
  then show ?case by simp
next
  case (Cons m ms)
  show ?case
  proof (cases ms)
    case Nil
    then show ?thesis by simp
  next
    case (Cons m' ms')
    show ?thesis
    proof (cases "forward training m x")
      case (Inl e)
      then show ?thesis using Cons by (simp add: foldl_bind_Inl)
    next
      case (Inr y)
      then show ?thesis using Cons Cons.IH [of y] by simp
    qed
  qed
qed


lemma DenseBlock_running:
  assumes "sizes x = [N, Cin, H, W]" "0 < H" "0 < W" "\<not> (training \<and> N * H * W = 1)"
  shows "\<exists>d. foldl (\<lambda>r m. bind_result r (forward training m)) (Inr x)
            (map (\<lambda>i. conv_block (g * i + Cin) g) [0..<k]) =
          Inr \<lparr>sizes = [N, Cin + k * g, H, W], data = d\<rparr>"
proof (induction k)
  case 0
  have "x = \<lparr>sizes = [N, Cin, H, W], data = data x\<rparr>" using assms(1) by simp
  then show ?case by auto
next
  case (Suc k)
  then obtain d where d: "foldl (\<lambda>r m. bind_result r (forward training m)) (Inr x)
            (map (\<lambda>i. conv_block (g * i + Cin) g) [0..<k]) =
          Inr \<lparr>sizes = [N, Cin + k * g, H, W], data = d\<rparr>" by blast
  have "forward training (conv_block (g * k + Cin) g) \<lparr>sizes = [N, Cin + k * g, H, W], data = d\<rparr>
       = Inr \<lparr>sizes = [N, (g * k + Cin) + g, H, W],
          data = Apply (Cat_op 1) [d,
            Apply (Conv2d_op ((Options (g * k + Cin) g 3)\<lparr>padding := 1\<rparr>))
              [Apply ReLU_op [Apply (BatchNorm2d_op (g * k + Cin) training) [d]]]]\<rparr>"
    using conv_block_forward [of "\<lparr>sizes = [N, Cin + k * g, H, W], data = d\<rparr>" N "g * k + Cin" H W training g]
      assms by (simp add: ac_simps)
  then show ?case using d by (simp add: ac_simps)
qed

lemma DenseBlock_forward_shape:
  assumes "sizes x = [N, Cin, H, W]" "0 < H" "0 < W" "\<not> (training \<and> N * H * W = 1)" "0 < n"
  shows "\<exists>d. forward training (DenseBlock n Cin g) x = Inr \<lparr>sizes = [N, Cin + n * g, H, W], data = d\<rparr>"
proof -
  have ne: "map (\<lambda>i. conv_block (g * i + Cin) g) [0..<n] \<noteq> []" using assms(5) by simp
  show ?thesis
    using DenseBlock_running [OF assms(1-4), of g n]
    by (simp add: DenseBlock_children SequentialImpl_forward_foldl [OF ne])
qed

lemma bind_result_ext: "(\<And>y. f y = g y) \<Longrightarrow> bind_result r f = bind_result r g"
  by (cases r) simp_all

lemma forward_init_modules:
  "forward training (init_modules m) x = forward training m x"
  "SequentialImpl_forward training (map init_modules ms) x = SequentialImpl_forward training ms x"
  by (induction training m x and training ms x rule: forward_SequentialImpl_forward.induct)
    (auto intro: bind_result_ext)


lemma halve_channels_exact: "m < 2 ^ 53 \<Longrightarrow> halve_channels m = m div 2"
proof -
  assume "m < 2 ^ 53"
  then have "m < 9007199254740992" by simp
  then have "halve_channels m = nat \<lfloor>(of_nat m :: rat) / of_nat 2\<rfloor>"
    by (simp add: halve_channels_def to_double_def)
  also have "\<dots> = m div 2"
    by (simp only: floor_divide_of_nat_eq nat_int)
  finally show ?thesis .
qed

lemma upt_4: "[0..<4] = [0, 1, 2, 3]"
  by (simp add: upt_rec)

lemma dense_stages_default:
  "foldl dense_stage (push_stem default_members) [0..<4] =
     \<lparr>classifier = None, num_channels = 248, growth_rate = 32,
      num_convs_in_dense_blocks = [4, 4, 4, 4],
      features = SequentialImpl Sequential
        [Conv2d ((Options 3 64 7)\<lparr>stride := 2, padding := 3\<rparr>) FrameworkDefault FrameworkDefault,
         BatchNorm2d 64 FrameworkDefault FrameworkDefault, ReLU, Functional_max_pool2d 3 2 1 1 False,
         DenseBlock 4 64 32, transition_block 192 96,
         DenseBlock 4 96 32, transition_block 224 112,
         DenseBlock 4 112 32, transition_block 240 120,
         DenseBlock 4 120 32]\<rparr>"
  by (simp add: upt_4 push_stem_def default_members_def dense_stage_def Let_def
      halve_channels_exact)

lemma DensNet_unfolded:
  "DensNet nc =
     \<lparr>classifier = Some (Linear 248 nc FrameworkDefault (Constant 0)), num_channels = 248,
      growth_rate = 32, num_convs_in_dense_blocks = [4, 4, 4, 4],
      features = init_modules (SequentialImpl Sequential
        [Conv2d ((Options 3 64 7)\<lparr>stride := 2, padding := 3\<rparr>) FrameworkDefault FrameworkDefault,
         BatchNorm2d 64 FrameworkDefault FrameworkDefault, ReLU, Functional_max_pool2d 3 2 1 1 False,
         DenseBlock 4 64 32, transition_block 192 96,
         DenseBlock 4 96 32, transition_block 224 112,
         DenseBlock 4 112 32, transition_block 240 120,
         DenseBlock 4 120 32, BatchNorm2d 248 FrameworkDefault FrameworkDefault])\<rparr>"
proof -
  have "length (num_convs_in_dense_blocks (push_stem default_members)) = 4"
    by (simp add: push_stem_def default_members_def)
  then have l: "[0..<length (num_convs_in_dense_blocks (push_stem default_members))] = [0..<4]"
    by (simp only:)
  show ?thesis
    unfolding DensNet_def DensNetImpl_from_def Let_def l dense_stages_default
    by (simp add: official_init_def)
qed

lemma DensNet_features:
  "features (DensNet nc) = init_modules (SequentialImpl Sequential
     [Conv2d ((Options 3 64 7)\<lparr>stride := 2, padding := 3\<rparr>) FrameworkDefault FrameworkDefault,
      BatchNorm2d 64 FrameworkDefault FrameworkDefault, ReLU, Functional_max_pool2d 3 2 1 1 False,
      DenseBlock 4 64 32, transition_block 192 96,
      DenseBlock 4 96 32, transition_block 224 112,
      DenseBlock 4 112 32, transition_block 240 120,
      DenseBlock 4 120 32, BatchNorm2d 248 FrameworkDefault FrameworkDefault])"
  by (simp only: DensNet_unfolded DensNetImpl.simps)

lemma DensNet_num_channels: "num_channels (DensNet nc) = 248"
  by (simp only: DensNet_unfolded DensNetImpl.simps)

lemma DensNet_classifier:
  "classifier (DensNet nc) = Some (Linear 248 nc FrameworkDefault (Constant 0))"
  by (simp only: DensNet_unfolded DensNetImpl.simps)

lemma halve_channels_rounded: "halve_channels 9007199254740995 = 4503599627370498"
proof -
  have le: "floorlog 2 9007199254740995 \<le> 54" by (rule floorlog_leI) simp_all
  have ge: "Suc 53 \<le> floorlog 2 9007199254740995" by (rule floorlog_ge_SucI) simp_all
  have fl: "floorlog 2 9007199254740995 = 54" using le ge by simp
  show ?thesis by (simp add: halve_channels_def to_double_def fl Let_def)
qed

lemma stem_conv_shape:
  assumes "sizes x = [N, 3, 224, 224]"
  shows "\<exists>y. forward training
      (Conv2d ((Options 3 64 7)\<lparr>stride := 2, padding := 3\<rparr>) w b) x = Inr y \<and>
      sizes y = [N, 64, 112, 112]"
  using assms unfolding forward.simps Conv2d_forward_def conv_output_size_def Options_def by simp

lemma BatchNorm2d_shape:
  assumes "sizes x = [N, C, H, W]" "\<not> (training \<and> N * H * W = 1)"
  shows "\<exists>y. forward training (BatchNorm2d C w b) x = Inr y \<and> sizes y = [N, C, H, W]"
  using BatchNorm2d_forward_ok [OF assms] by simp

lemma ReLU_shape: "\<exists>y. forward training ReLU x = Inr y \<and> sizes y = sizes x"
  by (simp add: relu_def)

lemma stem_pool_shape:
  assumes "sizes x = [N, 64, 112, 112]"
  shows "\<exists>y. forward training (Functional_max_pool2d 3 2 1 1 False) x = Inr y \<and>
     sizes y = [N, 64, 56, 56]"
  using assms unfolding forward.simps max_pool2d_def pool2d_def pooling_output_shape_def by simp

lemma DenseBlock_shape:
  assumes "sizes x = [N, Cin, H, W]" "0 < H" "0 < W" "\<not> (training \<and> N * H * W = 1)" "0 < n"
  shows "\<exists>y. forward training (DenseBlock n Cin g) x = Inr y \<and> sizes y = [N, Cin + n * g, H, W]"
  using DenseBlock_forward_shape [OF assms, of g] by auto

lemma transition_block_shape:
  assumes "sizes x = [N, Cin, H, W]" "2 \<le> H" "2 \<le> W" "0 < Cout"
  shows "\<exists>y. forward training (transition_block Cin Cout) x = Inr y \<and>
     sizes y = [N, Cout, H div 2, W div 2]"
  using transition_block_forward [OF assms] by simp

lemma DensNet_features_shape:
  assumes "sizes x = [N, 3, 224, 224]"
  shows "\<exists>y. forward training (features (DensNet nc)) x = Inr y \<and> sizes y = [N, 248, 7, 7]"
proof -
  have g: "\<And>h. 1 < h \<Longrightarrow> \<not> (training \<and> N * h * h = 1)" by auto
  obtain t1 where t1: "forward training
      (Conv2d ((Options 3 64 7)\<lparr>stride := 2, padding := 3\<rparr>) FrameworkDefault FrameworkDefault) x = Inr t1"
      "sizes t1 = [N, 64, 112, 112]"
    using stem_conv_shape [OF assms] by blast
  obtain t2 where t2: "forward training (BatchNorm2d 64 FrameworkDefault FrameworkDefault) t1 = Inr t2"
      "sizes t2 = [N, 64, 112, 112]"
    using BatchNorm2d_shape [OF t1(2), of training] g [of 112] by auto
  obtain t3 where t3: "forward training ReLU t2 = Inr t3" "sizes t3 = [N, 64, 112, 112]"
    using ReLU_shape [of training t2] t2(2) by auto
  obtain t4 where t4: "forward training (Functional_max_pool2d 3 2 1 1 False) t3 = Inr t4"
      "sizes t4 = [N, 64, 56, 56]"
    using stem_pool_shape [OF t3(2)] by blast
  obtain t5 where t5: "forward training (DenseBlock 4 64 32) t4 = Inr t5" "sizes t5 = [N, 192, 56, 56]"
    using DenseBlock_shape [OF t4(2), of training 4 32] g [of 56] by auto
  obtain t6 where t6: "forward training (transition_block 192 96) t5 = Inr t6" "sizes t6 = [N, 96, 28, 28]"
    using transition_block_shape [OF t5(2), of 96 training] by auto
  obtain t7 where t7: "forward training (DenseBlock 4 96 32) t6 = Inr t7" "sizes t7 = [N, 224, 28, 28]"
    using DenseBlock_shape [OF t6(2), of training 4 32] g [of 28] by auto
  obtain t8 where t8: "forward training (transition_block 224 112) t7 = Inr t8" "sizes t8 = [N, 112, 14, 14]"
    using transition_block_shape [OF t7(2), of 112 training] by auto
  obtain t9 where t9: "forward training (DenseBlock 4 112 32) t8 = Inr t9" "sizes t9 = [N, 240, 14, 14]"
    using DenseBlock_shape [OF t8(2), of training 4 32] g [of 14] by auto
  obtain t10 where t10: "forward training (transition_block 240 120) t9 = Inr t10" "sizes t10 = [N, 120, 7, 7]"
    using transition_block_shape [OF t9(2), of 120 training] by auto
  obtain t11 where t11: "forward training (DenseBlock 4 120 32) t10 = Inr t11" "sizes t11 = [N, 248, 7, 7]"
    using DenseBlock_shape [OF t10(2), of training 4 32] g [of 7] by auto
  obtain t12 where t12: "forward training (BatchNorm2d 248 FrameworkDefault FrameworkDefault) t11 = Inr t12"
      "sizes t12 = [N, 248, 7, 7]"
    using BatchNorm2d_shape [OF t11(2), of training] g [of 7] by auto
  have "forward training (features (DensNet nc)) x = Inr t12"
    unfolding DensNet_features forward_init_modules
    using t1(1) t2(1) t3(1) t4(1) t5(1) t6(1) t7(1) t8(1) t9(1) t10(1) t11(1) t12(1)
    by (simp del: forward.simps(1-7))
  then show ?thesis using t12(2) by simp
qed

lemma DensNet_forward_shape:
  assumes "sizes x = [N, 3, 224, 224]" "0 < N"
  shows "\<exists>d. DensNet_forward training (DensNet nc) x =
     Inr \<lparr>sizes = [N, nc], data = Apply (Linear_op 248 nc) [d]\<rparr>"
proof -
  obtain y where y: "forward training (features (DensNet nc)) x = Inr y" "sizes y = [N, 248, 7, 7]"
    using DensNet_features_shape [OF assms(1)] by blast
  have p: "adaptive_avg_pool2d (relu y) 1 1 =
      Inr \<lparr>sizes = [N, 248, 1, 1], data = Apply (AdaptiveAvgPool2d_op 1 1) [data (relu y)]\<rparr>"
    using y(2) by (simp add: adaptive_avg_pool2d_def relu_def)
  have v: "view_rows \<lparr>sizes = [N, 248, 1, 1], data = e\<rparr> N =
      Inr \<lparr>sizes = [N, 248], data = Apply View_op [e]\<rparr>" for e
    using assms(2) by (simp add: view_rows_def)
  show ?thesis
    using y p v by (simp add: DensNet_forward_def DensNet_classifier Linear_forward_def)
qed


text \<open>
  C2, as amended. On an input of shape \<open>[N, Cin, H, W]\<close> whose spatial extents are not
  empty and which, in training mode, holds more than one value per channel
  (\<open>N * H * W \<noteq> 1\<close>), the forward of a \<open>conv_block\<close> is the concatenation on axis 1 of the
  input itself with the 3x3, padding 1 convolution of the ReLU of the batch normalisation
  of the input; its shape is \<open>[N, Cin + Cout, H, W]\<close>.
\<close>

theorem conv_block_forward_concat:
  assumes "sizes x = [N, Cin, H, W]" "0 < H" "0 < W" "\<not> (training \<and> N * H * W = 1)"
  shows "forward training (conv_block Cin Cout) x =
     Inr \<lparr>sizes = [N, Cin + Cout, H, W],
          data = Apply (Cat_op 1) [data x,
            Apply (Conv2d_op ((Options Cin Cout 3)\<lparr>padding := 1\<rparr>))
              [Apply ReLU_op [Apply (BatchNorm2d_op Cin training) [data x]]]]\<rparr>"
  using assms by (rule conv_block_forward)

theorem conv_block_forward_concat_witness:
  "sizes \<lparr>sizes = [2, 3, 8, 8], data = Data 0\<rparr> = [2, 3, 8, 8] \<and> (0::nat) < 8 \<and>
   \<not> (True \<and> (2::nat) * 8 * 8 = 1) \<and>
   forward True (conv_block 3 32) \<lparr>sizes = [2, 3, 8, 8], data = Data 0\<rparr> =
     Inr \<lparr>sizes = [2, 35, 8, 8],
          data = Apply (Cat_op 1) [Data 0,
            Apply (Conv2d_op ((Options 3 32 3)\<lparr>padding := 1\<rparr>))
              [Apply ReLU_op [Apply (BatchNorm2d_op 3 True) [Data 0]]]]\<rparr>"
  using conv_block_forward_concat [of "\<lparr>sizes = [2, 3, 8, 8], data = Data 0\<rparr>" 2 3 8 8 True 32]
  by simp

text \<open>
  The claim as it was written, for every input of shape \<open>[N, Cin, H, W]\<close>, does not hold:
  outside these conditions the forward throws and returns no tensor. A single value per
  channel in training mode stops at the batch normalisation, an empty spatial extent at
  the convolution, whose kernel of 3 is larger than the padded extent of 2.
\<close>

theorem conv_block_forward_refused:
  "forward True (conv_block 3 32) \<lparr>sizes = [1, 3, 1, 1], data = Data 0\<rparr> =
     Inl NeedMoreThanOneValuePerChannel \<and>
   forward False (conv_block 3 32) \<lparr>sizes = [1, 3, 0, 8], data = Data 0\<rparr> =
     Inl KernelLargerThanInput \<and>
   forward False (conv_block 3 32) \<lparr>sizes = [1, 3, 8, 0], data = Data 0\<rparr> =
     Inl KernelLargerThanInput"
  by (simp add: conv_block_children BatchNorm2d_forward_def relu_def Conv2d_forward_def
      conv_output_size_def Options_def)




text \<open>
  C3, as amended. For every \<open>num_convs\<close> the constructor of \<open>DenseBlock\<close> makes \<open>num_convs\<close>
  blocks, block \<open>i\<close> a \<open>conv_block\<close> from \<open>input_channels + i * growth_rate\<close> channels to
  \<open>growth_rate\<close> new ones. With at least one block, on an input of shape
  \<open>[N, input_channels, H, W]\<close> that the layers accept, the forward is the blocks applied one
  after the other, the tensor that reaches block \<open>k\<close> has
  \<open>input_channels + k * growth_rate\<close> channels, and the output has
  \<open>input_channels + num_convs * growth_rate\<close> channels on the same spatial extents.
\<close>

theorem DenseBlock_growth:
  "DenseBlock n Cin g =
     SequentialImpl DenseBlockClass (map (\<lambda>i. conv_block (Cin + i * g) g) [0..<n]) \<and>
   (sizes x = [N, Cin, H, W] \<and> 0 < H \<and> 0 < W \<and> \<not> (training \<and> N * H * W = 1) \<and> 0 < n \<longrightarrow>
      forward training (DenseBlock n Cin g) x =
        foldl (\<lambda>r m. bind_result r (forward training m)) (Inr x)
          (map (\<lambda>i. conv_block (Cin + i * g) g) [0..<n]) \<and>
      (\<forall>k\<le>n. \<exists>d. foldl (\<lambda>r m. bind_result r (forward training m)) (Inr x)
                     (map (\<lambda>i. conv_block (Cin + i * g) g) [0..<k]) =
                   Inr \<lparr>sizes = [N, Cin + k * g, H, W], data = d\<rparr>) \<and>
      (\<exists>d. forward training (DenseBlock n Cin g) x =
             Inr \<lparr>sizes = [N, Cin + n * g, H, W], data = d\<rparr>))"
proof -
  have c: "(\<lambda>i. conv_block (g * i + Cin) g) = (\<lambda>i. conv_block (Cin + i * g) g)"
    by (simp add: ac_simps)
  have children: "DenseBlock n Cin g =
     SequentialImpl DenseBlockClass (map (\<lambda>i. conv_block (Cin + i * g) g) [0..<n])"
    using DenseBlock_children [of n Cin g] by (simp only: c)
  have fwd: "forward training (DenseBlock n Cin g) x =
        foldl (\<lambda>r m. bind_result r (forward training m)) (Inr x)
          (map (\<lambda>i. conv_block (Cin + i * g) g) [0..<n])" if "0 < n"
  proof -
    have "map (\<lambda>i. conv_block (Cin + i * g) g) [0..<n] \<noteq> []" using that by simp
    then show ?thesis by (simp add: children SequentialImpl_forward_foldl)
  qed
  have run: "\<exists>d. foldl (\<lambda>r m. bind_result r (forward training m)) (Inr x)
                     (map (\<lambda>i. conv_block (Cin + i * g) g) [0..<k]) =
                   Inr \<lparr>sizes = [N, Cin + k * g, H, W], data = d\<rparr>"
    if "sizes x = [N, Cin, H, W]" "0 < H" "0 < W" "\<not> (training \<and> N * H * W = 1)" for k
    using DenseBlock_running [OF that, of g k] by (simp only: c)
  show ?thesis
    using children fwd run DenseBlock_forward_shape [of x N Cin H W training n g] by blast
qed

theorem DenseBlock_growth_witness:
  "DenseBlock 2 64 32 = SequentialImpl DenseBlockClass [conv_block 64 32, conv_block 96 32] \<and>
   (\<exists>d. forward True (DenseBlock 2 64 32) \<lparr>sizes = [1, 64, 56, 56], data = Data 0\<rparr> =
          Inr \<lparr>sizes = [1, 128, 56, 56], data = d\<rparr>)"
proof -
  note t = DenseBlock_growth [of 2 64 32 "\<lparr>sizes = [1, 64, 56, 56], data = Data 0\<rparr>" 1 56 56 True]
  have u: "[0..<2] = [0, 1]" by (simp add: upt_rec)
  have 1: "DenseBlock 2 64 32 = SequentialImpl DenseBlockClass [conv_block 64 32, conv_block 96 32]"
    using t [THEN conjunct1] by (simp add: u)
  have h: "sizes \<lparr>sizes = [1, 64, 56, 56], data = Data 0\<rparr> = [1, 64, 56, 56] \<and> (0::nat) < 56 \<and>
      (0::nat) < 56 \<and> \<not> (True \<and> (1::nat) * 56 * 56 = 1) \<and> (0::nat) < 2"
    by simp
  have "\<exists>d. forward True (DenseBlock 2 64 32) \<lparr>sizes = [1, 64, 56, 56], data = Data 0\<rparr> =
          Inr \<lparr>sizes = [1, 64 + 2 * 32, 56, 56], data = d\<rparr>"
    using t [THEN conjunct2] h by blast
  then have 2: "\<exists>d. forward True (DenseBlock 2 64 32) \<lparr>sizes = [1, 64, 56, 56], data = Data 0\<rparr> =
          Inr \<lparr>sizes = [1, 128, 56, 56], data = d\<rparr>"
    by simp
  show ?thesis using 1 2 by blast
qed

text \<open>
  With \<open>num_convs = 0\<close> the constructor pushes nothing, and the forward of the empty
  container throws where the composition of no blocks would return the input.
\<close>

theorem DenseBlock_empty_forward_throws:
  "DenseBlock 0 3 32 = SequentialImpl DenseBlockClass [] \<and>
   forward False (DenseBlock 0 3 32) \<lparr>sizes = [1, 3, 8, 8], data = Data 0\<rparr> = Inl EmptySequential"
  by (simp add: DenseBlock_def)

text \<open>
  C5. The body of the constructor's loop pushes a dense block and adds
  \<open>num_convs * growth_rate\<close> to the channel counter; at every index but the last it then
  pushes a transition block from that count to its half and sets the counter to the
  half. For a count below \<open>2^53\<close> the half is the integer quotient, so an odd count loses
  its remainder. With the member initialisers of the source the stack is the one written
  out below, and 248 channels reach the last batch normalisation and the linear
  classifier.
\<close>

theorem channel_bookkeeping:
  "dense_stage self i =
     (let n = num_convs_in_dense_blocks self ! i;
          c = num_channels self + n * growth_rate self;
          block = DenseBlock n (num_channels self) (growth_rate self)
      in if i \<noteq> length (num_convs_in_dense_blocks self) - 1
         then self\<lparr>features :=
                push_back (push_back (features self) block)
                  (transition_block c (halve_channels c)),
                num_channels := halve_channels c\<rparr>
         else self\<lparr>features := push_back (features self) block, num_channels := c\<rparr>) \<and>
   (m < 2 ^ 53 \<longrightarrow> halve_channels m = m div 2 \<and> (odd m \<longrightarrow> 2 * halve_channels m = m - 1)) \<and>
   features (DensNet num_classes) = init_modules (SequentialImpl Sequential
     [Conv2d ((Options 3 64 7)\<lparr>stride := 2, padding := 3\<rparr>) FrameworkDefault FrameworkDefault,
      BatchNorm2d 64 FrameworkDefault FrameworkDefault, ReLU, Functional_max_pool2d 3 2 1 1 False,
      DenseBlock 4 64 32, transition_block 192 96,
      DenseBlock 4 96 32, transition_block 224 112,
      DenseBlock 4 112 32, transition_block 240 120,
      DenseBlock 4 120 32, BatchNorm2d 248 FrameworkDefault FrameworkDefault]) \<and>
   num_channels (DensNet num_classes) = 248 \<and>
   classifier (DensNet num_classes) = Some (Linear 248 num_classes FrameworkDefault (Constant 0))"
proof -
  have a: "dense_stage self i =
     (let n = num_convs_in_dense_blocks self ! i;
          c = num_channels self + n * growth_rate self;
          block = DenseBlock n (num_channels self) (growth_rate self)
      in if i \<noteq> length (num_convs_in_dense_blocks self) - 1
         then self\<lparr>features :=
                push_back (push_back (features self) block)
                  (transition_block c (halve_channels c)),
                num_channels := halve_channels c\<rparr>
         else self\<lparr>features := push_back (features self) block, num_channels := c\<rparr>)"
    by (simp add: dense_stage_def Let_def)
  have b: "m < 2 ^ 53 \<longrightarrow> halve_channels m = m div 2 \<and> (odd m \<longrightarrow> 2 * halve_channels m = m - 1)"
  proof
    assume "m < 2 ^ 53"
    then have h: "halve_channels m = m div 2" by (rule halve_channels_exact)
    have "odd m \<longrightarrow> 2 * (m div 2) = m - 1" by presburger
    then show "halve_channels m = m div 2 \<and> (odd m \<longrightarrow> 2 * halve_channels m = m - 1)"
      using h by simp
  qed
  show ?thesis
    using a b DensNet_features [of num_classes] DensNet_num_channels [of num_classes]
      DensNet_classifier [of num_classes]
    by (intro conjI)
qed

theorem channel_bookkeeping_witness:
  "(225::nat) < 2 ^ 53 \<and> odd (225::nat) \<and> 2 * halve_channels 225 = 224 \<and>
   halve_channels 225 = 112 \<and>
   num_channels (dense_stage (push_stem default_members) 0) = 96 \<and>
   num_channels (dense_stage (default_members\<lparr>num_channels := 120\<rparr>) 3) = 248 \<and>
   num_channels (DensNet 17) = 248 \<and>
   classifier (DensNet 17) = Some (Linear 248 17 FrameworkDefault (Constant 0))"
proof -
  note f = channel_bookkeeping [of "push_stem default_members" 0 225 17]
  note g = channel_bookkeeping [of "default_members\<lparr>num_channels := 120\<rparr>" 3 225 17]
  have s: "(225::nat) < 2 ^ 53" by simp
  have 3: "halve_channels 225 = 112 \<and> 2 * halve_channels 225 = 224"
    using f [THEN conjunct2, THEN conjunct1] s by simp
  have h: "halve_channels 192 = 96" by (simp add: halve_channels_exact)
  have 1: "num_channels (dense_stage (push_stem default_members) 0) = 96"
    using f [THEN conjunct1] by (simp add: Let_def push_stem_def default_members_def h)
  have 2: "num_channels (dense_stage (default_members\<lparr>num_channels := 120\<rparr>) 3) = 248"
    using g [THEN conjunct1] by (simp add: Let_def default_members_def)
  have 4: "num_channels (DensNet 17) = 248 \<and>
      classifier (DensNet 17) = Some (Linear 248 17 FrameworkDefault (Constant 0))"
    using f by simp
  show ?thesis using 1 2 3 4 s by simp
qed

section \<open>Properties of the model\<close>

text \<open>
  C1, as amended. For every batch size \<open>N\<close> of at least one sample and every \<open>num_classes\<close>, in
  either mode, the forward of \<open>DensNet(num_classes)\<close> on an input of shape
  \<open>[N, 3, 224, 224]\<close> returns a tensor of shape \<open>[N, num_classes]\<close>, and that tensor is the
  output of the linear classifier itself: nothing normalises it.
\<close>

theorem DensNet_forward_output_shape:
  assumes "sizes x = [N, 3, 224, 224]" "0 < N"
  shows "\<exists>d. DensNet_forward training (DensNet num_classes) x =
     Inr \<lparr>sizes = [N, num_classes], data = Apply (Linear_op 248 num_classes) [d]\<rparr>"
  using assms by (rule DensNet_forward_shape)

theorem DensNet_forward_output_shape_witness:
  "sizes \<lparr>sizes = [1, 3, 224, 224], data = Data 0\<rparr> = [1, 3, 224, 224] \<and> (0::nat) < 1 \<and>
   (\<exists>d. DensNet_forward True (DensNet 17) \<lparr>sizes = [1, 3, 224, 224], data = Data 0\<rparr> =
     Inr \<lparr>sizes = [1, 17], data = Apply (Linear_op 248 17) [d]\<rparr>)"
  using DensNet_forward_output_shape [of "\<lparr>sizes = [1, 3, 224, 224], data = Data 0\<rparr>" 1 True 17]
  by simp

text \<open>
  An empty batch passes the feature stack and stops at \<open>view\<close>, which cannot infer the
  second extent of a tensor without elements.
\<close>

lemma DensNet_forward_empty_batch:
  assumes "sizes x = [0, 3, 224, 224]"
  shows "DensNet_forward training (DensNet nc) x = Inl AmbiguousInferredDimension"
proof -
  obtain y where y: "forward training (features (DensNet nc)) x = Inr y" "sizes y = [0, 248, 7, 7]"
    using DensNet_features_shape [OF assms] by blast
  have p: "adaptive_avg_pool2d (relu y) 1 1 =
      Inr \<lparr>sizes = [0, 248, 1, 1], data = Apply (AdaptiveAvgPool2d_op 1 1) [data (relu y)]\<rparr>"
    using y(2) by (simp add: adaptive_avg_pool2d_def relu_def)
  show ?thesis
    using y p by (simp add: DensNet_forward_def view_rows_def)
qed

text \<open>
  The claim as it was written, for every batch size, does not hold: with \<open>N = 0\<close> the
  forward throws and returns no tensor of shape \<open>[0, num_classes]\<close>.
\<close>

theorem DensNet_forward_empty_batch_throws:
  "DensNet_forward False (DensNet 17) \<lparr>sizes = [0, 3, 224, 224], data = Data 0\<rparr> =
     Inl AmbiguousInferredDimension"
  by (rule DensNet_forward_empty_batch) simp

lemma init_policy_features: "list_all initialised_by_policy (modules (features (DensNet nc)))"
  unfolding DensNet_features by code_simp

lemma features_members:
  "Conv2d ((Options 3 64 7)\<lparr>stride := 2, padding := 3\<rparr>) KaimingNormal FrameworkDefault
     \<in> set (modules (features (DensNet nc)))"
  "Conv2d ((Options 216 32 3)\<lparr>padding := 1\<rparr>) KaimingNormal FrameworkDefault
     \<in> set (modules (features (DensNet nc)))"
  "BatchNorm2d 248 (Constant 1) (Constant 0) \<in> set (modules (features (DensNet nc)))"
  unfolding DensNet_features by code_simp+

lemma features_modules_length: "length (modules (features (DensNet nc))) = 89"
  unfolding DensNet_features by code_simp

text \<open>
  C9. After the constructor every module below the model follows the policy: each
  convolution has its weight from Kaiming-normal and its bias as the framework left it,
  each batch normalisation has weight 1 and bias 0, and the linear layer has bias 0 and
  its weight as the framework left it. The pass goes over all 90 modules, among them the
  first and the last convolution, the last batch normalisation and the classifier.
\<close>

theorem official_init_policy:
  "(\<forall>m \<in> set (DensNet_modules (DensNet num_classes)). initialised_by_policy m) \<and>
   length (DensNet_modules (DensNet num_classes)) = 90 \<and>
   Conv2d ((Options 3 64 7)\<lparr>stride := 2, padding := 3\<rparr>) KaimingNormal FrameworkDefault
     \<in> set (DensNet_modules (DensNet num_classes)) \<and>
   Conv2d ((Options 216 32 3)\<lparr>padding := 1\<rparr>) KaimingNormal FrameworkDefault
     \<in> set (DensNet_modules (DensNet num_classes)) \<and>
   BatchNorm2d 248 (Constant 1) (Constant 0) \<in> set (DensNet_modules (DensNet num_classes)) \<and>
   Linear 248 num_classes FrameworkDefault (Constant 0)
     \<in> set (DensNet_modules (DensNet num_classes))"
proof -
  have split: "DensNet_modules (DensNet num_classes) =
      modules (features (DensNet num_classes)) @
      [Linear 248 num_classes FrameworkDefault (Constant 0)]"
    by (simp add: DensNet_modules_def DensNet_classifier)
  have len: "length (modules (features (DensNet num_classes))) = 89"
    by (rule features_modules_length)
  show ?thesis
    using init_policy_features [of num_classes] features_members [of num_classes] len
    by (simp add: split list_all_iff)
qed

theorem official_init_policy_witness:
  "list_all initialised_by_policy (DensNet_modules (DensNet 17)) \<and>
   Linear 248 17 FrameworkDefault (Constant 0) \<in> set (DensNet_modules (DensNet 17))"
  using official_init_policy [of 17] by (simp add: list_all_iff)

section \<open>Properties of Set_Class_Names\<close>

lemma store_names_result:
  "i \<le> length names \<Longrightarrow>
   store_names ls names i =
     (let long = filter (\<lambda>l. 2 < length l) ls in
      if i + length long \<le> length names
      then Returns (take i names @ long @ drop (i + length long) names, i + length long)
      else Uncaught ''std::out_of_range'')"
proof (induction ls arbitrary: names i)
  case Nil
  then show ?case by simp
next
  case (Cons l ls)
  show ?case
  proof (cases "2 < length l")
    case False
    then show ?thesis using Cons by simp
  next
    case long: True
    show ?thesis
    proof (cases "i < length names")
      case False
      then show ?thesis using long Cons.prems by (simp add: Let_def)
    next
      case True
      have t: "take (Suc i) (names[i := l]) = take i names @ [l]"
        using True by (simp add: take_Suc_conv_app_nth)
      have d: "drop (Suc i + k) (names[i := l]) = drop (Suc i + k) names" for k
        by simp
      have "store_names (l # ls) names i = store_names ls (names[i := l]) (Suc i)"
        using long True by simp
      also have "\<dots> = (let long = filter (\<lambda>l. 2 < length l) ls in
          if Suc i + length long \<le> length names
          then Returns (take i names @ [l] @ long @ drop (Suc i + length long) names,
                        Suc i + length long)
          else Uncaught ''std::out_of_range'')"
        using Cons.IH [of "Suc i" "names[i := l]"] True t d by (simp add: Let_def)
      finally show ?thesis using long by (simp add: Let_def)
    qed
  qed
qed

lemma Set_Class_Names_cases:
  "Set_Class_Names fs path class_num =
     (case fs path of
        None \<Rightarrow> Exits 1 ''Error : can't open the class name file.''
      | Some content \<Rightarrow>
          let long = filter (\<lambda>l. 2 < length l) (getlines content) in
          if length long = class_num then Returns long
          else if length long < class_num
          then Exits 1 ''Error : The number of classes does not match the number of lines in the class name file.''
          else Uncaught ''std::out_of_range'')"
proof (cases "fs path")
  case None
  then show ?thesis by (simp add: Set_Class_Names_def)
next
  case (Some content)
  show ?thesis
    using Some store_names_result [of 0 "replicate class_num []" "getlines content"]
    by (simp add: Set_Class_Names_def Let_def)
qed

text \<open>
  C4. With one class expected and two names in the file, the second name goes to
  \<open>class_names.at(1)\<close>, which throws; the process ends in an uncaught
  \<open>std::out_of_range\<close> and not in the error line and \<open>std::exit(1)\<close> of the count check.
\<close>

theorem Set_Class_Names_excess_line_uncaught:
  "Set_Class_Names (\<lambda>p. Some ''rose\<newline>tulip\<newline>'') ''names.txt'' 1 =
     Uncaught ''std::out_of_range''"
  by code_simp

lemma Set_Class_Names_examples:
  "Set_Class_Names (\<lambda>p. Some ''rose\<newline>\<newline>ab\<newline>tulip'') ''names.txt'' 2 =
     Returns [''rose'', ''tulip'']"
  "Set_Class_Names (\<lambda>p. Some ''rose\<newline>'') ''names.txt'' 2 =
     Exits 1 ''Error : The number of classes does not match the number of lines in the class name file.''"
  "Set_Class_Names (\<lambda>p. None) ''names.txt'' 2 =
     Exits 1 ''Error : can't open the class name file.''"
  by code_simp+

section \<open>Properties of the loops of main\<close>

lemma well_formed_batchE:
  assumes "well_formed_batch nc b"
  obtains N where "sizes (fst b) = [N, 3, 224, 224]" "0 < N" "length (snd b) = N"
    "list_all (\<lambda>t. t = -100 \<or> (0 \<le> t \<and> t < int nc)) (snd b)"
  using assms unfolding well_formed_batch_def
  by (auto split: list.splits)

lemma well_formed_test_batch_imp:
  "well_formed_test_batch nc b \<Longrightarrow> well_formed_batch nc b"
  unfolding well_formed_test_batch_def well_formed_batch_def
  by (auto split: list.splits)

lemma batch_forward:
  assumes "well_formed_batch nc b"
  obtains d where
    "DensNet_forward training (DensNet nc) (fst b) =
       Inr \<lparr>sizes = [length (snd b), nc], data = Apply (Linear_op 248 nc) [d]\<rparr>"
proof -
  obtain N where n: "sizes (fst b) = [N, 3, 224, 224]" "0 < N" "length (snd b) = N"
    using assms by (rule well_formed_batchE)
  show ?thesis
    using DensNet_forward_shape [OF n(1,2), of training nc] n(3) that by auto
qed

lemma loss_value_defined:
  assumes "well_formed_batch nc b"
  shows "\<exists>l. loss_value w v training (DensNet nc) b = Inr l"
proof -
  obtain d where d: "DensNet_forward training (DensNet nc) (fst b) =
       Inr \<lparr>sizes = [length (snd b), nc], data = Apply (Linear_op 248 nc) [d]\<rparr>"
    using assms by (rule batch_forward)
  have "list_all (\<lambda>t. t = -100 \<or> (0 \<le> t \<and> t < int nc)) (snd b)"
    using assms by (rule well_formed_batchE)
  then show ?thesis
    by (simp add: loss_value_def d log_softmax_def criterion_def)
qed













lemma well_formed_test_batchE:
  assumes "well_formed_test_batch nc b"
  obtains a where "sizes (fst b) = [1, 3, 224, 224]" "snd b = [a]" "0 \<le> a" "a < int nc"
  using assms unfolding well_formed_test_batch_def by (auto split: list.splits)

lemma test_iteration_result:
  assumes "well_formed_test_batch nc b" "length cm = nc" "length cc = nc"
    and "loss_value w (updates st) (is_training st) (DensNet nc) b = Inr l"
  shows "test_iteration w (DensNet nc) (st, la, match, counter, cm, cc) b =
     Inr (st\<lparr>calls := calls st @
               [Net_forward (is_training st), Log_softmax, Criterion, Exp_argmax]\<rparr>,
          fadd (rnd w) la l,
          (if top1 w (updates st) (is_training st) (DensNet nc) (fst b) 0 = Inr (hd (snd b))
           then match + 1 else match),
          counter + 1,
          (if top1 w (updates st) (is_training st) (DensNet nc) (fst b) 0 = Inr (hd (snd b))
           then cm[nat (hd (snd b)) := cm ! nat (hd (snd b)) + 1] else cm),
          cc[nat (hd (snd b)) := cc ! nat (hd (snd b)) + 1])"
proof -
  obtain a where a: "sizes (fst b) = [1, 3, 224, 224]" "snd b = [a]" "0 \<le> a" "a < int nc"
    using assms(1) by (rule well_formed_test_batchE)
  have wb: "well_formed_batch nc b" using assms(1) by (rule well_formed_test_batch_imp)
  have nc: "0 < nc" using a(3,4) by simp
  obtain d where d: "DensNet_forward (is_training st) (DensNet nc) (fst b) =
       Inr \<lparr>sizes = [length (snd b), nc], data = Apply (Linear_op 248 nc) [d]\<rparr>"
    using wb by (rule batch_forward)
  let ?out = "\<lparr>sizes = [length (snd b), nc], data = Apply (Linear_op 248 nc) [d]\<rparr>"
  let ?r = "\<lparr>sizes = [1], data = Apply (Argmax_op 1) [Apply Exp_op [Apply (Linear_op 248 nc) [d]]]\<rparr>"
  have am: "argmax1 (exp_t ?out) = Inr ?r"
    using nc a(2) by (simp add: argmax1_def exp_t_def)
  have t: "top1 w (updates st) (is_training st) (DensNet nc) (fst b) i =
      Inr (item_int64 w (updates st) (data ?r) i)" for i
    using am by (simp add: top1_def d)
  have lv: "l = item_float w (updates st) (Apply NLLLoss_op
        [Apply (LogSoftmax_op 1) [Apply (Linear_op 248 nc) [d]], Ints (snd b)])"
    using assms(4) a by (simp add: loss_value_def d log_softmax_def criterion_def)
  show ?thesis
    using a am lv assms(2,3)
    by (simp add: test_iteration_def case_prod_unfold d t log_softmax_def criterion_def Let_def)
qed

lemma test_fold:
  assumes "\<forall>b\<in>set bs. well_formed_test_batch nc b"
  shows "length cm = nc \<Longrightarrow> length cc = nc \<Longrightarrow>
     \<exists>st' ls cm' cc'.
       fold_result (test_iteration w (DensNet nc)) (st, la, match, counter, cm, cc) bs =
         Inr (st', foldl (fadd (rnd w)) la ls,
              match + length (filter (\<lambda>b. top1 w (updates st) (is_training st) (DensNet nc)
                                          (fst b) 0 = Inr (hd (snd b))) bs),
              counter + length bs, cm', cc') \<and>
       map (loss_value w (updates st) (is_training st) (DensNet nc)) bs = map Inr ls \<and>
       length cm' = nc \<and> length cc' = nc \<and>
       (\<forall>k<nc. cc' ! k = cc ! k + length (filter (\<lambda>b. hd (snd b) = int k) bs) \<and>
               cm' ! k = cm ! k + length (filter (\<lambda>b. hd (snd b) = int k \<and>
                    top1 w (updates st) (is_training st) (DensNet nc) (fst b) 0 = Inr (int k)) bs)) \<and>
       is_training st' = is_training st \<and> updates st' = updates st"
  using assms
proof (induction bs arbitrary: st la match counter cm cc)
  case Nil
  then show ?case by simp
next
  case (Cons b bs)
  have wb: "well_formed_test_batch nc b" using Cons.prems by simp
  obtain a where a: "sizes (fst b) = [1, 3, 224, 224]" "snd b = [a]" "0 \<le> a" "a < int nc"
    using wb by (rule well_formed_test_batchE)
  obtain l where l: "loss_value w (updates st) (is_training st) (DensNet nc) b = Inr l"
    using loss_value_defined [OF well_formed_test_batch_imp [OF wb],
        of w "updates st" "is_training st"] by blast
  let ?p = "top1 w (updates st) (is_training st) (DensNet nc) (fst b) 0 = Inr a"
  let ?st1 = "st\<lparr>calls := calls st @
               [Net_forward (is_training st), Log_softmax, Criterion, Exp_argmax]\<rparr>"
  let ?cm1 = "if ?p then cm[nat a := cm ! nat a + 1] else cm"
  let ?cc1 = "cc[nat a := cc ! nat a + 1]"
  let ?m1 = "if ?p then match + 1 else match"
  have step: "test_iteration w (DensNet nc) (st, la, match, counter, cm, cc) b =
      Inr (?st1, fadd (rnd w) la l, ?m1, counter + 1, ?cm1, ?cc1)"
    using test_iteration_result [OF wb Cons.prems(1,2) l, of la match counter] a(2) by simp
  have len: "length ?cm1 = nc" "length ?cc1 = nc" using Cons.prems(1,2) by simp_all
  obtain st' ls cm' cc' where r:
    "fold_result (test_iteration w (DensNet nc))
        (?st1, fadd (rnd w) la l, ?m1, counter + 1, ?cm1, ?cc1) bs =
         Inr (st', foldl (fadd (rnd w)) (fadd (rnd w) la l) ls,
              ?m1 + length (filter (\<lambda>b. top1 w (updates ?st1) (is_training ?st1) (DensNet nc)
                                          (fst b) 0 = Inr (hd (snd b))) bs),
              counter + 1 + length bs, cm', cc')"
    "map (loss_value w (updates ?st1) (is_training ?st1) (DensNet nc)) bs = map Inr ls"
    "length cm' = nc" "length cc' = nc"
    "\<forall>k<nc. cc' ! k = ?cc1 ! k + length (filter (\<lambda>b. hd (snd b) = int k) bs) \<and>
            cm' ! k = ?cm1 ! k + length (filter (\<lambda>b. hd (snd b) = int k \<and>
               top1 w (updates ?st1) (is_training ?st1) (DensNet nc) (fst b) 0 = Inr (int k)) bs)"
    "is_training st' = is_training ?st1" "updates st' = updates ?st1"
    using Cons.IH [OF len, of ?st1 "fadd (rnd w) la l" ?m1 "counter + 1"] Cons.prems(3) by auto
  have fold: "fold_result (test_iteration w (DensNet nc)) (st, la, match, counter, cm, cc) (b # bs) =
         Inr (st', foldl (fadd (rnd w)) la (l # ls),
              match + length (filter (\<lambda>b. top1 w (updates st) (is_training st) (DensNet nc)
                                          (fst b) 0 = Inr (hd (snd b))) (b # bs)),
              counter + length (b # bs), cm', cc')"
    using step r(1) a(2) by simp
  have losses: "map (loss_value w (updates st) (is_training st) (DensNet nc)) (b # bs) =
      map Inr (l # ls)"
    using l r(2) by simp
  have counts: "\<forall>k<nc. cc' ! k = cc ! k + length (filter (\<lambda>b. hd (snd b) = int k) (b # bs)) \<and>
            cm' ! k = cm ! k + length (filter (\<lambda>b. hd (snd b) = int k \<and>
               top1 w (updates st) (is_training st) (DensNet nc) (fst b) 0 = Inr (int k)) (b # bs))"
  proof (intro allI impI)
    fix k assume k: "k < nc"
    have eq: "(a = int k) = (k = nat a)" using a(3) by auto
    have c1: "?cc1 ! k = cc ! k + (if a = int k then 1 else 0)"
      using k Cons.prems(2) eq by (simp add: nth_list_update)
    have c2: "?cm1 ! k = cm ! k + (if a = int k \<and> ?p then 1 else 0)"
      using k Cons.prems(1) eq by (simp add: nth_list_update)
    show "cc' ! k = cc ! k + length (filter (\<lambda>b. hd (snd b) = int k) (b # bs)) \<and>
            cm' ! k = cm ! k + length (filter (\<lambda>b. hd (snd b) = int k \<and>
               top1 w (updates st) (is_training st) (DensNet nc) (fst b) 0 = Inr (int k)) (b # bs))"
      using r(5) k c1 c2 a(2) by auto
  qed
  show ?case
    apply (rule exI [of _ st'])
    apply (rule exI [of _ "l # ls"])
    apply (rule exI [of _ cm'])
    apply (rule exI [of _ cc'])
    using fold losses r(3,4,6,7) counts by simp
qed

lemma test_phase_result:
  assumes "\<forall>b\<in>set (test_batches w). well_formed_test_batch nc b" "nc \<le> length class_names"
  shows "\<exists>st' rep ls.
     test_phase w (DensNet nc) class_names nc st = Inr (st', rep) \<and>
     \<not> is_training st' \<and> updates st' = updates st \<and>
     map (loss_value w (updates st) False (DensNet nc)) (test_batches w) = map Inr ls \<and>
     test_ave_loss rep = fdiv (rnd w) (foldl (fadd (rnd w)) (Fin 0) ls)
                           (float_of_size (rnd w) (dataset_size w)) \<and>
     final_counter rep = length (test_batches w) \<and>
     final_match rep = length (filter (\<lambda>b. top1 w (updates st) False (DensNet nc) (fst b) 0 =
                                            Inr (hd (snd b))) (test_batches w)) \<and>
     accuracy rep = fdiv (rnd w) (float_of_size (rnd w) (final_match rep))
                      (float_of_size (rnd w) (final_counter rep)) \<and>
     length (class_accuracy rep) = nc \<and>
     (\<forall>k<nc. final_class_counter rep ! k =
               length (filter (\<lambda>b. hd (snd b) = int k) (test_batches w)) \<and>
             final_class_match rep ! k =
               length (filter (\<lambda>b. hd (snd b) = int k \<and>
                  top1 w (updates st) False (DensNet nc) (fst b) 0 = Inr (int k)) (test_batches w)) \<and>
             class_accuracy rep ! k =
               fdiv (rnd w) (float_of_size (rnd w) (final_class_match rep ! k))
                 (float_of_size (rnd w) (final_class_counter rep ! k))) \<and>
     console rep =
       [Str ''total test images : '', Size (test_dataset_size w), Endl, Endl,
        Str ''Test accuracy ==========\<newline>''] @
       concat (map (\<lambda>i. [Str (class_names ! i), Str '': '',
                           Float (class_accuracy rep ! i), Str ''\<newline>'']) [0..<nc]) @
       [Str ''\<newline>Test accuracy: '', Float (accuracy rep), Endl]"
proof -
  let ?st0 = "st\<lparr>is_training := False, calls := calls st @ [Net_eval]\<rparr>"
  obtain st' ls cm' cc' where r:
    "fold_result (test_iteration w (DensNet nc))
        (?st0, Fin 0, 0, 0, replicate nc 0, replicate nc 0) (test_batches w) =
       Inr (st', foldl (fadd (rnd w)) (Fin 0) ls,
            0 + length (filter (\<lambda>b. top1 w (updates ?st0) (is_training ?st0) (DensNet nc)
                                        (fst b) 0 = Inr (hd (snd b))) (test_batches w)),
            0 + length (test_batches w), cm', cc')"
    "map (loss_value w (updates ?st0) (is_training ?st0) (DensNet nc)) (test_batches w) = map Inr ls"
    "length cm' = nc" "length cc' = nc"
    "\<forall>k<nc. cc' ! k = replicate nc 0 ! k + length (filter (\<lambda>b. hd (snd b) = int k) (test_batches w)) \<and>
            cm' ! k = replicate nc 0 ! k + length (filter (\<lambda>b. hd (snd b) = int k \<and>
               top1 w (updates ?st0) (is_training ?st0) (DensNet nc) (fst b) 0 = Inr (int k))
                 (test_batches w))"
    "is_training st' = is_training ?st0" "updates st' = updates ?st0"
    using test_fold [OF assms(1), of "replicate nc 0" "replicate nc 0" w ?st0 "Fin 0" 0 0]
    by auto
  let ?m = "length (filter (\<lambda>b. top1 w (updates st) False (DensNet nc) (fst b) 0 =
                                 Inr (hd (snd b))) (test_batches w))"
  let ?c = "length (test_batches w)"
  let ?acc = "fdiv (rnd w) (float_of_size (rnd w) ?m) (float_of_size (rnd w) ?c)"
  let ?ca = "map (\<lambda>i. fdiv (rnd w) (float_of_size (rnd w) (cm' ! i))
                                         (float_of_size (rnd w) (cc' ! i))) [0..<nc]"
  let ?rep = "\<lparr>test_ave_loss = fdiv (rnd w) (foldl (fadd (rnd w)) (Fin 0) ls)
                           (float_of_size (rnd w) (dataset_size w)),
               class_accuracy = ?ca, accuracy = ?acc,
               final_class_match = cm', final_class_counter = cc',
               final_match = ?m, final_counter = ?c,
               console =
                 [Str ''total test images : '', Size (test_dataset_size w), Endl, Endl,
                  Str ''Test accuracy ==========\<newline>''] @
                 concat (map (\<lambda>i. [Str (class_names ! i), Str '': '',
                                     Float (?ca ! i), Str ''\<newline>'']) [0..<nc]) @
                 [Str ''\<newline>Test accuracy: '', Float ?acc, Endl]\<rparr>"
  have tp: "test_phase w (DensNet nc) class_names nc st = Inr (st', ?rep)"
    using r(1) assms(2) by (simp add: test_phase_def Let_def)
  have counts: "\<forall>k<nc. cc' ! k = length (filter (\<lambda>b. hd (snd b) = int k) (test_batches w)) \<and>
      cm' ! k = length (filter (\<lambda>b. hd (snd b) = int k \<and>
                  top1 w (updates st) False (DensNet nc) (fst b) 0 = Inr (int k)) (test_batches w)) \<and>
      ?ca ! k = fdiv (rnd w) (float_of_size (rnd w) (cm' ! k)) (float_of_size (rnd w) (cc' ! k))"
    using r(5) by simp
  show ?thesis
    apply (rule exI [of _ st'])
    apply (rule exI [of _ ?rep])
    apply (rule exI [of _ ls])
    using tp r(2,6,7) counts by simp
qed

lemma example_world_batches:
  "well_formed_batch 2 (\<lparr>sizes = [2, 3, 224, 224], data = Data e\<rparr>, [0, 1])"
  "well_formed_batch 2 (\<lparr>sizes = [1, 3, 224, 224], data = Data e\<rparr>, [1])"
  "well_formed_test_batch 2 (\<lparr>sizes = [1, 3, 224, 224], data = Data e\<rparr>, [0])"
  by (simp_all add: well_formed_batch_def well_formed_test_batch_def)

lemma example_world_loss:
  assumes "well_formed_batch nc b"
  shows "loss_value example_world v training (DensNet nc) b = Inr (Fin 1)"
proof -
  obtain d where d: "DensNet_forward training (DensNet nc) (fst b) =
       Inr \<lparr>sizes = [length (snd b), nc], data = Apply (Linear_op 248 nc) [d]\<rparr>"
    using assms by (rule batch_forward)
  have "list_all (\<lambda>t. t = -100 \<or> (0 \<le> t \<and> t < int nc)) (snd b)"
    using assms by (rule well_formed_batchE)
  then show ?thesis
    by (simp add: loss_value_def d log_softmax_def criterion_def example_world_def)
qed

lemma example_world_top1:
  assumes "well_formed_batch nc b" "0 < nc"
  shows "top1 example_world v training (DensNet nc) (fst b) i = Inr 0"
proof -
  obtain d where d: "DensNet_forward training (DensNet nc) (fst b) =
       Inr \<lparr>sizes = [length (snd b), nc], data = Apply (Linear_op 248 nc) [d]\<rparr>"
    using assms(1) by (rule batch_forward)
  show ?thesis using assms(2) by (simp add: top1_def d argmax1_def exp_t_def example_world_def)
qed

lemma example_test_phase:
  "test_phase example_world (DensNet 2) [''rose'', ''tulip''] 2 fresh_state =
     Inr (example_final_state, example_report)"
proof -
  let ?b = "(\<lparr>sizes = [1, 3, 224, 224], data = Data 200\<rparr>, [0::int])"
  let ?st0 = "fresh_state\<lparr>is_training := False, calls := calls fresh_state @ [Net_eval]\<rparr>"
  have wb: "well_formed_test_batch 2 ?b" by (rule example_world_batches)
  have l: "loss_value example_world (updates ?st0) (is_training ?st0) (DensNet 2) ?b = Inr (Fin 1)"
    by (rule example_world_loss [OF well_formed_test_batch_imp [OF wb]])
  have t: "top1 example_world (updates ?st0) (is_training ?st0) (DensNet 2) (fst ?b) 0 = Inr 0"
    by (rule example_world_top1 [OF well_formed_test_batch_imp [OF wb]]) simp
  have step: "test_iteration example_world (DensNet 2) (?st0, Fin 0, 0, 0, [0, 0], [0, 0]) ?b =
      Inr (?st0\<lparr>calls := calls ?st0 @ [Net_forward False, Log_softmax, Criterion, Exp_argmax]\<rparr>,
           Fin 1, 1, 1, [1, 0], [1, 0])"
    using test_iteration_result [OF wb _ _ l, of "[0, 0]" "[0, 0]" "Fin 0" 0 0] t
    by (simp add: example_world_def)
  have r: "replicate 2 (0::nat) = [0, 0]" by (simp add: numeral_2_eq_2)
  have u: "[0..<2] = [0, 1]" by (simp add: upt_rec)
  have tb: "test_batches example_world = [?b]" by (simp add: example_world_def)
  show ?thesis
    unfolding test_phase_def tb r u
    using step
    by (simp add: example_final_state_def example_report_def fresh_state_def
        example_world_def float_of_size_def Let_def)
qed



text \<open>
  C7. With one well-formed test image per mini-batch and a name for every class, the test
  phase completes; for every class \<open>c\<close> its counter is the number of test samples labelled
  \<open>c\<close>, its match count the number of those whose top-1 prediction is \<open>c\<close>, and the accuracy
  written out for \<open>c\<close> is the float quotient of the two, which is NaN when the class has
  no test sample: nothing guards the division.
\<close>

theorem per_class_test_accuracy:
  assumes "\<forall>b\<in>set (test_batches w). well_formed_test_batch class_num b"
    and "length class_names = class_num"
  shows "\<exists>st' rep. test_phase w (DensNet class_num) class_names class_num st = Inr (st', rep) \<and>
     length (class_accuracy rep) = class_num \<and>
     (\<forall>c<class_num.
        final_class_counter rep ! c =
          length (filter (\<lambda>b. hd (snd b) = int c) (test_batches w)) \<and>
        final_class_match rep ! c =
          length (filter (\<lambda>b. hd (snd b) = int c \<and>
             top1 w (updates st) False (DensNet class_num) (fst b) 0 = Inr (int c)) (test_batches w)) \<and>
        class_accuracy rep ! c =
          fdiv (rnd w) (float_of_size (rnd w) (final_class_match rep ! c))
            (float_of_size (rnd w) (final_class_counter rep ! c)) \<and>
        (final_class_counter rep ! c = 0 \<longrightarrow> class_accuracy rep ! c = NaN)) \<and>
     console rep =
       [Str ''total test images : '', Size (test_dataset_size w), Endl, Endl,
        Str ''Test accuracy ==========\<newline>''] @
       concat (map (\<lambda>i. [Str (class_names ! i), Str '': '',
                           Float (class_accuracy rep ! i), Str ''\<newline>'']) [0..<class_num]) @
       [Str ''\<newline>Test accuracy: '', Float (accuracy rep), Endl]"
proof -
  have n: "class_num \<le> length class_names" using assms(2) by simp
  obtain st' rep where r:
    "test_phase w (DensNet class_num) class_names class_num st = Inr (st', rep)"
    "length (class_accuracy rep) = class_num"
    "\<forall>k<class_num. final_class_counter rep ! k =
               length (filter (\<lambda>b. hd (snd b) = int k) (test_batches w)) \<and>
             final_class_match rep ! k =
               length (filter (\<lambda>b. hd (snd b) = int k \<and>
                  top1 w (updates st) False (DensNet class_num) (fst b) 0 = Inr (int k))
                    (test_batches w)) \<and>
             class_accuracy rep ! k =
               fdiv (rnd w) (float_of_size (rnd w) (final_class_match rep ! k))
                 (float_of_size (rnd w) (final_class_counter rep ! k))"
    "console rep =
       [Str ''total test images : '', Size (test_dataset_size w), Endl, Endl,
        Str ''Test accuracy ==========\<newline>''] @
       concat (map (\<lambda>i. [Str (class_names ! i), Str '': '',
                           Float (class_accuracy rep ! i), Str ''\<newline>'']) [0..<class_num]) @
       [Str ''\<newline>Test accuracy: '', Float (accuracy rep), Endl]"
    using test_phase_result [OF assms(1) n, of st] by blast
  have nan: "final_class_counter rep ! c = 0 \<longrightarrow> class_accuracy rep ! c = NaN"
    if c: "c < class_num" for c
  proof
    assume z: "final_class_counter rep ! c = 0"
    then have "filter (\<lambda>b. hd (snd b) = int c) (test_batches w) = []"
      using r(3) c by simp
    then have "filter (\<lambda>b. hd (snd b) = int c \<and>
             top1 w (updates st) False (DensNet class_num) (fst b) 0 = Inr (int c))
               (test_batches w) = []"
      by (simp add: filter_empty_conv)
    then have "final_class_match rep ! c = 0" using r(3) c by simp
    then show "class_accuracy rep ! c = NaN"
      using r(3) c z by (simp add: float_of_size_def)
  qed
  show ?thesis
    apply (rule exI [of _ st'])
    apply (rule exI [of _ rep])
    using r nan by simp
qed

theorem per_class_test_accuracy_witness:
  "\<exists>st' rep. test_phase example_world (DensNet 2) [''rose'', ''tulip''] 2 fresh_state =
       Inr (st', rep) \<and>
     final_class_counter rep ! 0 = 1 \<and> final_class_counter rep ! 1 = 0 \<and>
     class_accuracy rep ! 1 = NaN"
proof -
  have h1: "\<forall>b\<in>set (test_batches example_world). well_formed_test_batch 2 b"
    by (simp add: example_world_def example_world_batches del: One_nat_def)
  have h2: "length [''rose'', ''tulip''] = 2" by simp
  obtain st' rep where r:
    "test_phase example_world (DensNet 2) [''rose'', ''tulip''] 2 fresh_state = Inr (st', rep)"
    "\<forall>c<2. final_class_counter rep ! c =
          length (filter (\<lambda>b. hd (snd b) = int c) (test_batches example_world)) \<and>
        (final_class_counter rep ! c = 0 \<longrightarrow> class_accuracy rep ! c = NaN)"
    using per_class_test_accuracy [OF h1 h2, of fresh_state] by blast
  have c0: "final_class_counter rep ! 0 = 1" using r(2) by (simp add: example_world_def)
  have c1: "final_class_counter rep ! 1 = 0" using r(2) by (simp add: example_world_def)
  then have "class_accuracy rep ! 1 = NaN" using r(2) by simp
  then show ?thesis using r(1) c0 c1 by blast
qed

text \<open>
  C10, as amended. Under the same conditions, the average test loss that the test phase
  computes is the sum of the losses of the test samples divided by the size of the
  training dataset, whatever the number of test samples; the program does not write it
  out: every floating-point value in the output of the test phase is a per-class accuracy
  or the overall accuracy.
\<close>

theorem test_average_loss_divisor:
  assumes "\<forall>b\<in>set (test_batches w). well_formed_test_batch class_num b"
    and "length class_names = class_num"
  shows "\<exists>st' rep ls. test_phase w (DensNet class_num) class_names class_num st = Inr (st', rep) \<and>
     map (loss_value w (updates st) False (DensNet class_num)) (test_batches w) = map Inr ls \<and>
     test_ave_loss rep = fdiv (rnd w) (foldl (fadd (rnd w)) (Fin 0) ls)
                           (float_of_size (rnd w) (dataset_size w)) \<and>
     final_counter rep = length (test_batches w) \<and>
     (\<forall>x. Float x \<in> set (console rep) \<longrightarrow> x \<in> set (class_accuracy rep) \<or> x = accuracy rep)"
proof -
  have n: "class_num \<le> length class_names" using assms(2) by simp
  obtain st' rep ls where r:
    "test_phase w (DensNet class_num) class_names class_num st = Inr (st', rep)"
    "map (loss_value w (updates st) False (DensNet class_num)) (test_batches w) = map Inr ls"
    "test_ave_loss rep = fdiv (rnd w) (foldl (fadd (rnd w)) (Fin 0) ls)
                           (float_of_size (rnd w) (dataset_size w))"
    "final_counter rep = length (test_batches w)"
    "length (class_accuracy rep) = class_num"
    "console rep =
       [Str ''total test images : '', Size (test_dataset_size w), Endl, Endl,
        Str ''Test accuracy ==========\<newline>''] @
       concat (map (\<lambda>i. [Str (class_names ! i), Str '': '',
                           Float (class_accuracy rep ! i), Str ''\<newline>'']) [0..<class_num]) @
       [Str ''\<newline>Test accuracy: '', Float (accuracy rep), Endl]"
    using test_phase_result [OF assms(1) n, of st] by blast
  have "\<forall>x. Float x \<in> set (console rep) \<longrightarrow> x \<in> set (class_accuracy rep) \<or> x = accuracy rep"
    unfolding r(6) using r(5) by auto
  then show ?thesis using r(1-4) by blast
qed

theorem test_average_loss_divisor_witness:
  "\<exists>st' rep. test_phase example_world (DensNet 2) [''rose'', ''tulip''] 2 fresh_state =
       Inr (st', rep) \<and>
     test_ave_loss rep = Fin (1 / 2) \<and> final_counter rep = 1 \<and> dataset_size example_world = 2"
proof -
  have h1: "\<forall>b\<in>set (test_batches example_world). well_formed_test_batch 2 b"
    by (simp add: example_world_def example_world_batches del: One_nat_def)
  have h2: "length [''rose'', ''tulip''] = 2" by simp
  obtain st' rep ls where r:
    "test_phase example_world (DensNet 2) [''rose'', ''tulip''] 2 fresh_state = Inr (st', rep)"
    "map (loss_value example_world (updates fresh_state) False (DensNet 2))
        (test_batches example_world) = map Inr ls"
    "test_ave_loss rep = fdiv (rnd example_world) (foldl (fadd (rnd example_world)) (Fin 0) ls)
                           (float_of_size (rnd example_world) (dataset_size example_world))"
    "final_counter rep = length (test_batches example_world)"
    using test_average_loss_divisor [OF h1 h2, of fresh_state] by blast
  have tb: "test_batches example_world = [(\<lparr>sizes = [1, 3, 224, 224], data = Data 200\<rparr>, [0])]"
    by (simp add: example_world_def)
  have "loss_value example_world (updates fresh_state) False (DensNet 2)
      (\<lparr>sizes = [1, 3, 224, 224], data = Data 200\<rparr>, [0]) = Inr (Fin 1)"
    by (rule example_world_loss [OF well_formed_test_batch_imp [OF example_world_batches(3)]])
  then have ls: "ls = [Fin 1]" using r(2) unfolding tb by auto
  have "test_ave_loss rep = Fin (1 / 2)"
    unfolding r(3) ls by (simp add: example_world_def float_of_size_def)
  moreover have "final_counter rep = 1" using r(4) tb by simp
  moreover have "dataset_size example_world = 2" by (simp add: example_world_def)
  ultimately show ?thesis using r(1) by blast
qed

text \<open>
  In the example world the average is 1/2 (one loss of 1 over a training set of two
  images) and the output holds the accuracies 1, NaN and 1 only.
\<close>

theorem test_average_loss_not_printed:
  "test_phase example_world (DensNet 2) [''rose'', ''tulip''] 2 fresh_state =
     Inr (example_final_state, example_report) \<and>
   test_ave_loss example_report = Fin (1 / 2) \<and>
   Float (test_ave_loss example_report) \<notin> set (console example_report)"
  using example_test_phase by (simp add: example_report_def)

end
